theory Spec2Isabelle
  imports Complex_Main "HOL-Library.Log_Nat"
begin

section \<open>SafeLink: the scan pipeline and the hybrid risk score\<close>

text \<open>
  A shallow embedding of \<^verbatim>\<open>ml_model.py\<close> (the scoring engine) and
  \<^verbatim>\<open>scanner.py\<close> (the five analysis stages and \<^verbatim>\<open>scan_url\<close>).

  Conventions.
  \<^item> Python \<^verbatim>\<open>int\<close> is \<open>int\<close>; counts that the code obtains from \<^verbatim>\<open>len\<close> or
    \<^verbatim>\<open>count\<close> are converted with \<open>int\<close>.
  \<^item> A finite Python \<^verbatim>\<open>float\<close> is the rational number it denotes. Every float
    literal and every float operation is rounded to the nearest IEEE 754 binary64 number,
    ties to even (\<open>fl\<close>): \<^verbatim>\<open>0.60\<close> is \<open>fl (60 / 100)\<close>, not \<open>3 / 5\<close>. The format's
    gradual underflow is modelled; overflow, infinities and NaN are not: the numbers of
    this model are finite.
  \<^item> A number carries its Python type (\<^verbatim>\<open>int\<close>, \<^verbatim>\<open>float\<close> or \<^verbatim>\<open>numpy.float64\<close>),
    which decides how \<^verbatim>\<open>round\<close> treats it.
  \<^item> A Python \<^verbatim>\<open>str\<close> is a \<open>string\<close>; a character is a code point below 256.
  \<^item> A \<^verbatim>\<open>dict\<close> whose key order matters (the feature vector) is an association list
    in insertion order.
\<close>

subsection \<open>Python primitives\<close>

text \<open>The integer nearest to a rational number, ties to the even neighbour.\<close>

definition py_round :: "rat \<Rightarrow> int" where
  "py_round x =
     (let f = \<lfloor>x\<rfloor>; d = x - of_int f
      in if d < 1 / 2 then f
         else if 1 / 2 < d then f + 1
         else if even f then f else f + 1)"

subsection \<open>Python floats\<close>

text \<open>
  A finite \<^verbatim>\<open>float\<close> is the rational number it denotes. \<open>bitlen n\<close> is
  \<^verbatim>\<open>n.bit_length()\<close>, and \<open>ilog2 q\<close> is the exponent \<open>e\<close> of a positive \<open>q\<close> with
  \<open>2 ^ e \<le> q < 2 ^ (e + 1)\<close>.
\<close>

function bitlen :: "int \<Rightarrow> int" where
  "bitlen n = (if n \<le> 0 then 0 else 1 + bitlen (n div 2))"
  by pat_completeness auto
termination
  by (relation "measure nat") auto

definition ilog2 :: "rat \<Rightarrow> int" where
  "ilog2 q =
     (let (a, b) = quotient_of q;
          k = bitlen a - bitlen b
      in if 2 powi k \<le> q then k else k - 1)"


text \<open>
  \<open>fl q\<close>: the binary64 number nearest to \<open>q\<close>, ties to the even significand (the
  rounding of every float operation and of every float literal of the source): \<open>q\<close> is
  rounded to a multiple of the unit in the last of the 53 bits of its binade.
\<close>

definition fl :: "rat \<Rightarrow> rat" where
  "fl q =
     (if q = 0 then 0
      else let u = 2 powi (max (ilog2 \<bar>q\<bar>) (- 1022) - 52)
           in of_int (py_round (q / u)) * u)"

subsection \<open>Python numbers\<close>

text \<open>
  The numbers the scoring functions handle: a Python \<^verbatim>\<open>int\<close>, a Python \<^verbatim>\<open>float\<close>, or
  a \<^verbatim>\<open>numpy.float64\<close> (what scikit-learn returns, and what arithmetic with one returns).
\<close>

datatype number = PyInt int | PyFloat rat | NpFloat64 rat


fun is_np :: "number \<Rightarrow> bool" where
  "is_np (NpFloat64 x) = True"
| "is_np _ = False"

text \<open>The conversion of an operand of a float operation.\<close>

fun to_float :: "number \<Rightarrow> rat" where
  "to_float (PyInt n) = fl (of_int n)"
| "to_float (PyFloat x) = x"
| "to_float (NpFloat64 x) = x"

text \<open>
  An arithmetic operation with a float operand: the exact result, rounded once; a
  \<^verbatim>\<open>numpy.float64\<close> if either operand is one.
\<close>

definition float_op :: "(rat \<Rightarrow> rat \<Rightarrow> rat) \<Rightarrow> number \<Rightarrow> number \<Rightarrow> number" where
  "float_op f a b =
     (let q = fl (f (to_float a) (to_float b))
      in if is_np a \<or> is_np b then NpFloat64 q else PyFloat q)"










subsection \<open>Python strings\<close>

text \<open>\<^verbatim>\<open>s.startswith(p)\<close>.\<close>

definition startswith :: "string \<Rightarrow> string \<Rightarrow> bool" where
  "startswith s p = (take (length p) s = p)"

text \<open>\<^verbatim>\<open>sub in s\<close> for strings: \<open>sub\<close> occurs in \<open>s\<close> as a contiguous substring.\<close>

fun py_in :: "string \<Rightarrow> string \<Rightarrow> bool" where
  "py_in sub [] = (sub = [])"
| "py_in sub (c # cs) = (startswith (c # cs) sub \<or> py_in sub cs)"

text \<open>\<^verbatim>\<open>s.count(c)\<close> for a one-character \<open>c\<close>.\<close>

definition count_char :: "char \<Rightarrow> string \<Rightarrow> int" where
  "count_char c s = int (length (filter (\<lambda>x. x = c) s))"

text \<open>\<^verbatim>\<open>str.isspace\<close> on the code points below 256.\<close>

definition py_isspace :: "char \<Rightarrow> bool" where
  "py_isspace c =
     (let n = (of_char c :: nat)
      in (9 \<le> n \<and> n \<le> 13) \<or> (28 \<le> n \<and> n \<le> 32) \<or> n = 133 \<or> n = 160)"

text \<open>\<^verbatim>\<open>s.strip()\<close> and \<^verbatim>\<open>s.strip("/")\<close>.\<close>

definition strip_chars :: "(char \<Rightarrow> bool) \<Rightarrow> string \<Rightarrow> string" where
  "strip_chars P s = rev (dropWhile P (rev (dropWhile P s)))"

definition py_strip :: "string \<Rightarrow> string" where
  "py_strip s = strip_chars py_isspace s"

text \<open>\<^verbatim>\<open>s.lower()\<close> on the code points below 256.\<close>

definition lower_char :: "char \<Rightarrow> char" where
  "lower_char c =
     (let n = (of_char c :: nat)
      in if (65 \<le> n \<and> n \<le> 90) \<or> (192 \<le> n \<and> n \<le> 222 \<and> n \<noteq> 215)
         then char_of (n + 32) else c)"

definition py_lower :: "string \<Rightarrow> string" where
  "py_lower s = map lower_char s"

definition is_digit :: "char \<Rightarrow> bool" where
  "is_digit c = (let n = (of_char c :: nat) in 48 \<le> n \<and> n \<le> 57)"

definition is_hex :: "char \<Rightarrow> bool" where
  "is_hex c =
     (let n = (of_char c :: nat)
      in (48 \<le> n \<and> n \<le> 57) \<or> (97 \<le> n \<and> n \<le> 102) \<or> (65 \<le> n \<and> n \<le> 70))"

text \<open>The class \<^verbatim>\<open>\w\<close> of a \<^verbatim>\<open>str\<close> pattern, on the code points below 256.\<close>

definition is_word :: "char \<Rightarrow> bool" where
  "is_word c =
     (let n = (of_char c :: nat)
      in (48 \<le> n \<and> n \<le> 57) \<or> (65 \<le> n \<and> n \<le> 90) \<or> n = 95 \<or> (97 \<le> n \<and> n \<le> 122)
         \<or> n = 170 \<or> n = 178 \<or> n = 179 \<or> n = 181 \<or> n = 185 \<or> n = 186
         \<or> (188 \<le> n \<and> n \<le> 190) \<or> (192 \<le> n \<and> n \<le> 214) \<or> (216 \<le> n \<and> n \<le> 246)
         \<or> 248 \<le> n)"

subsection \<open>The regular expressions of \<^verbatim>\<open>analyze_url_structure\<close>\<close>

text \<open>\<^verbatim>\<open>len(re.findall(r"[@%&=~#!$*]", url))\<close>.\<close>

definition special_chars :: "char list" where
  "special_chars = ''@%&=~#!$*''"

definition count_special :: "string \<Rightarrow> int" where
  "count_special url = int (length (filter (\<lambda>c. c \<in> set special_chars) url))"

text \<open>\<^verbatim>\<open>len(re.findall(r"\d", hostname))\<close>.\<close>

definition count_digits :: "string \<Rightarrow> int" where
  "count_digits h = int (length (filter is_digit h))"

text \<open>
  \<^verbatim>\<open>len(re.findall(r"%[0-9a-fA-F]{2}", url))\<close>: matches do not overlap, the scan goes
  on behind each match.
\<close>

fun count_pct_encoded :: "string \<Rightarrow> nat" where
  "count_pct_encoded (a # b # c # cs) =
     (if a = CHR ''%'' \<and> is_hex b \<and> is_hex c then Suc (count_pct_encoded cs)
      else count_pct_encoded (b # c # cs))"
| "count_pct_encoded cs = 0"

text \<open>\<^verbatim>\<open>bool(re.search(r"%25[0-9a-fA-F]{2}", url))\<close>.\<close>

fun search_double_encoding :: "string \<Rightarrow> bool" where
  "search_double_encoding [] = False"
| "search_double_encoding (c # cs) =
     ((case c # cs of
         a # b # d # e # f # _ \<Rightarrow>
           a = CHR ''%'' \<and> b = CHR ''2'' \<and> d = CHR ''5'' \<and> is_hex e \<and> is_hex f
       | _ \<Rightarrow> False)
      \<or> search_double_encoding cs)"

text \<open>
  \<^verbatim>\<open>re.search(r"\b\d{1,3}(?:\.\d{1,3}){3}\b", hostname)\<close>. A group \<^verbatim>\<open>\d{1,3}\<close> is
  followed by a dot or by a word boundary, neither of which a digit satisfies, so each
  group is a whole run of one to three digits. \<open>ipv4_groups n s\<close> matches a group and
  \<open>n\<close> more groups, each behind a dot, at the start of \<open>s\<close>, and the closing
  \<^verbatim>\<open>\b\<close>; \<open>search_ipv4 w s\<close> tries every start where the opening \<^verbatim>\<open>\b\<close> holds
  (\<open>w\<close>: the character before is a word character).
\<close>

fun ipv4_groups :: "nat \<Rightarrow> string \<Rightarrow> bool" where
  "ipv4_groups n s =
     (let k = length (takeWhile is_digit s); rest = drop k s
      in 1 \<le> k \<and> k \<le> 3 \<and>
         (case n of
            0 \<Rightarrow> (case rest of [] \<Rightarrow> True | c # _ \<Rightarrow> \<not> is_word c)
          | Suc m \<Rightarrow> (case rest of [] \<Rightarrow> False | c # cs \<Rightarrow> c = CHR ''.'' \<and> ipv4_groups m cs)))"

fun search_ipv4 :: "bool \<Rightarrow> string \<Rightarrow> bool" where
  "search_ipv4 w [] = False"
| "search_ipv4 w (c # cs) = ((\<not> w \<and> ipv4_groups 3 (c # cs)) \<or> search_ipv4 (is_word c) cs)"

subsection \<open>\<^verbatim>\<open>ml_model.py\<close>: configuration\<close>

definition FEATURE_NAMES :: "string list" where
  "FEATURE_NAMES =
     [''url_length'', ''num_subdomains'', ''has_https'', ''domain_age_days'',
      ''redirect_count'', ''is_blacklisted'', ''has_ip_in_url'', ''suspicious_patterns'',
      ''has_valid_ssl'', ''special_char_count'', ''num_hyphens'', ''path_depth'',
      ''pct_encoded_count'', ''has_at_symbol'', ''is_url_shortener'']"



text \<open>The feature vector: a dict from feature name to number, in insertion order.\<close>

type_synonym feature_vector = "(string \<times> int) list"

text \<open>\<^verbatim>\<open>feature_vector.get(k, 0)\<close>.\<close>

definition fv_get :: "feature_vector \<Rightarrow> string \<Rightarrow> int" where
  "fv_get fv k = (case map_of fv k of None \<Rightarrow> 0 | Some v \<Rightarrow> v)"

text \<open>
  \<^verbatim>\<open>_extract_feature_array\<close>: the row handed to the scaler and the model, one entry per
  name of \<open>FEATURE_NAMES\<close>, in that order.
\<close>

definition extract_feature_array :: "feature_vector \<Rightarrow> int list" where
  "extract_feature_array fv = map (\<lambda>f. fv_get fv f) FEATURE_NAMES"

subsection \<open>\<^verbatim>\<open>compute_ml_anomaly_score\<close>\<close>






subsection \<open>\<^verbatim>\<open>compute_hybrid_risk_score\<close>\<close>



subsection \<open>\<^verbatim>\<open>scanner.py\<close>: constants\<close>

definition SUSPICIOUS_TLDS :: "string list" where
  "SUSPICIOUS_TLDS =
     [''.tk'', ''.ml'', ''.ga'', ''.cf'', ''.gq'', ''.xyz'', ''.top'', ''.club'',
      ''.online'', ''.site'', ''.icu'', ''.pw'', ''.cc'', ''.biz'', ''.info'',
      ''.vip'', ''.fun'', ''.work'', ''.loan'', ''.win'', ''.bid'']"

definition PHISHING_KEYWORDS :: "string list" where
  "PHISHING_KEYWORDS =
     [''login'', ''signin'', ''verify'', ''account'', ''secure'', ''update'', ''confirm'',
      ''banking'', ''paypal'', ''amazon'', ''google'', ''microsoft'', ''apple'', ''netflix'',
      ''password'', ''credential'', ''validate'', ''authenticate'', ''suspended'',
      ''unusual'', ''activity'', ''alert'', ''urgent'', ''click'', ''free'', ''win'',
      ''prize'', ''lottery'', ''crypto'', ''bitcoin'', ''wallet'', ''recovery'']"

definition BENIGN_DOMAINS :: "string list" where
  "BENIGN_DOMAINS =
     [''google.com'', ''youtube.com'', ''facebook.com'', ''twitter.com'', ''instagram.com'',
      ''linkedin.com'', ''github.com'', ''microsoft.com'', ''apple.com'', ''amazon.com'',
      ''wikipedia.org'', ''reddit.com'', ''stackoverflow.com'', ''medium.com'',
      ''cloudflare.com'', ''netflix.com'', ''spotify.com'', ''zoom.us'', ''slack.com'']"

definition BLACKLISTED_DOMAINS_SAMPLE :: "string list" where
  "BLACKLISTED_DOMAINS_SAMPLE =
     [''malware-test.com'', ''phishing-example.net'', ''evil-site.tk'',
      ''fakepaypal-secure.com'', ''login-amazon-verify.xyz'']"

definition MAX_REDIRECTS :: int where
  "MAX_REDIRECTS = 10"

definition url_shorteners :: "string list" where
  "url_shorteners =
     [''bit.ly'', ''t.co'', ''tinyurl.com'', ''goo.gl'', ''ow.ly'',
      ''buff.ly'', ''is.gd'', ''rebrand.ly'', ''cutt.ly'', ''short.gy'']"

definition DEMO_MALICIOUS_HASHES :: "string list" where
  "DEMO_MALICIOUS_HASHES = [''7f3a0f4d2b8c1e9a'', ''a1b2c3d4e5f67890'']"

subsection \<open>The libraries and the network\<close>

text \<open>
  What \<^verbatim>\<open>scanner.py\<close> calls outside the repository is a parameter of the model: the
  record \<open>env\<close> holds one function per library call, and the theorems hold for every
  \<open>env\<close>.
\<close>

text \<open>\<^verbatim>\<open>urllib.parse.ParseResult\<close>; \<open>hostname\<close> is \<open>None\<close> or a non-empty string.\<close>

record parse_result =
  scheme :: string
  netloc :: string
  hostname :: "string option"
  path :: string
  query :: string
  fragment :: string

text \<open>\<^verbatim>\<open>tldextract.ExtractResult\<close>.\<close>

record extract_result =
  ext_subdomain :: string
  ext_domain :: string
  ext_suffix :: string

text \<open>
  The outcome of the \<^verbatim>\<open>try\<close> block of \<^verbatim>\<open>analyze_domain\<close> up to the reading of
  the record: it raised (\<open>WhoisRaised\<close>), or \<^verbatim>\<open>python_whois.whois\<close> returned a record.
  \<open>w_creation_age\<close> is \<open>None\<close> when the creation date is falsy, else
  \<^verbatim>\<open>(now - creation).days\<close>; the other fields are the \<^verbatim>\<open>str\<close> renderings, \<open>None\<close>
  for a falsy value.
\<close>

record whois_record =
  w_creation_age :: "int option"
  w_creation_str :: string
  w_expiry_str :: "string option"
  w_registrar :: "string option"
  w_country :: "string option"

datatype whois_outcome = WhoisRaised | WhoisOk whois_record

text \<open>
  The outcome of the connection and handshake of \<^verbatim>\<open>analyze_ssl\<close>, by the
  \<^verbatim>\<open>except\<close> clause that catches it, or the certificate of \<^verbatim>\<open>getpeercert()\<close>.
  \<open>cert_days_left\<close> is \<^verbatim>\<open>(expire_dt - datetime.utcnow()).days\<close> and is read only when
  \<open>cert_notAfter\<close> is not empty; \<open>cert_issuer\<close> and \<open>cert_subject\<close> are the pairs
  \<^verbatim>\<open>x[0]\<close> the code builds its two dicts from.
\<close>

record peer_cert =
  cert_notAfter :: string
  cert_days_left :: int
  cert_issuer :: "(string \<times> string) list"
  cert_subject :: "(string \<times> string) list"
  cert_version :: string

datatype tls_outcome =
    TlsSSLError string
  | TlsConnectError
  | TlsOtherError string
  | TlsConnected peer_cert

text \<open>
  The outcome of \<^verbatim>\<open>session.get\<close> in \<^verbatim>\<open>analyze_redirects\<close>, by the \<^verbatim>\<open>except\<close>
  clause that catches it, or the response: \<^verbatim>\<open>resp.history\<close> and \<^verbatim>\<open>resp\<close>, each
  as url and status code.
\<close>

datatype http_outcome =
    HttpTooManyRedirects
  | HttpSSLError
  | HttpConnectionError
  | HttpTimeout
  | HttpOtherError string
  | HttpResponse "(string \<times> int) list" "string \<times> int"

datatype py_exception = ValueError string

record env =
  urlparse :: "string \<Rightarrow> py_exception + parse_result"
  tldextract :: "string \<Rightarrow> extract_result"
  ip_address :: "string \<Rightarrow> bool"
  parse_qs_len :: "string \<Rightarrow> int"
  md5_hexdigest :: "string \<Rightarrow> string"
  WHOIS_AVAILABLE :: bool
  whois :: "string \<Rightarrow> whois_outcome"
  tls_connect :: "string \<Rightarrow> tls_outcome"
  http_get :: "string \<Rightarrow> http_outcome"

text \<open>
  \<open>urlparse\<close> raises \<^verbatim>\<open>ValueError\<close> on some inputs (\<open>Inl\<close>); \<open>ip_address h\<close> says
  that \<^verbatim>\<open>ipaddress.ip_address(h)\<close> returns rather than raising \<^verbatim>\<open>ValueError\<close>;
  \<open>parse_qs_len q\<close> is \<^verbatim>\<open>len(urllib.parse.parse_qs(q))\<close>; \<open>md5_hexdigest s\<close> is
  \<^verbatim>\<open>hashlib.md5(s.encode()).hexdigest()\<close>.
\<close>

text \<open>The calls that reach the network, in the order a scan makes them.\<close>

datatype io_event = WhoisQuery string | TlsHandshake string | HttpGet string

subsection \<open>Triggered rules\<close>

text \<open>
  A triggered rule is a message of the source; each constructor stands for one message
  template, its arguments are the values the template interpolates.
\<close>

datatype rule =
    LongURL int int
  | IPAddressUsed
  | ExcessiveSubdomains int
  | MultipleSubdomains int
  | MultiplePhishingKeywords "string list"
  | PhishingKeyword string
  | HighRiskTLD string
  | ExcessiveHyphens int
  | SuspiciousSpecialChars int
  | AtSymbol
  | EncodingObfuscation int
  | DoubleEncoding
  | Punycode
  | URLShortener
  | ManyDigits int
  | WhoisUnavailable
  | WhoisLookupFailed
  | DomainAgeUnknown
  | VeryNewDomain int
  | RecentlyRegistered int
  | RelativelyNew int
  | NoHTTPS
  | NoHostname
  | SelfSigned
  | CertExpired int
  | CertExpiringVerySoon int
  | CertExpiringSoon int
  | SSLValidationFailed string
  | SSLCouldNotConnect
  | SSLCheckError string
  | Blacklisted "string list"
  | ExcessiveRedirects int
  | MultipleRedirects int
  | CrossesDomains int
  | Downgrade
  | RedirectLoop
  | RedirectSSLError
  | RedirectCouldNotConnect
  | RedirectTimedOut
  | RedirectError string

text \<open>
  One \<^verbatim>\<open>if cond: rule_score += d; rules_triggered.append(msg)\<close> of the source: the
  score delta and the message when the condition holds.
\<close>

definition rule_if :: "bool \<Rightarrow> int \<Rightarrow> rule \<Rightarrow> (int \<times> rule) list" where
  "rule_if c d r = (if c then [(d, r)] else [])"

subsection \<open>Parameter 1: \<^verbatim>\<open>analyze_url_structure\<close>\<close>

record url_struct =
  us_url_length :: int
  us_num_subdomains :: int
  us_has_ip_in_url :: bool
  us_suspicious_patterns :: int
  us_special_char_count :: int
  us_num_hyphens :: int
  us_num_dots :: int
  us_path_depth :: int
  us_pct_encoded_count :: int
  us_has_at_symbol :: bool
  us_has_punycode :: bool
  us_is_url_shortener :: bool
  us_has_suspicious_tld :: bool
  us_matched_keywords :: "string list"
  us_num_query_params :: int
  us_rule_score :: int
  us_rules_triggered :: "rule list"
  us_domain :: string
  us_suffix :: string
  us_subdomain :: string

text \<open>The rules of the stage in the order of the source, each with its delta.\<close>

definition url_structure_rules ::
  "int \<Rightarrow> bool \<Rightarrow> int \<Rightarrow> string list \<Rightarrow> bool \<Rightarrow> string \<Rightarrow> int \<Rightarrow> int \<Rightarrow> bool \<Rightarrow> int \<Rightarrow> bool
     \<Rightarrow> bool \<Rightarrow> bool \<Rightarrow> int \<Rightarrow> (int \<times> rule) list" where
  "url_structure_rules url_length has_ip_in_url num_subdomains matched_keywords
      has_suspicious_tld suffix num_hyphens special_char_count has_at_symbol
      pct_encoded_count has_double_encoding has_punycode is_url_shortener
      num_digits_in_domain =
     (let suspicious_patterns = int (length matched_keywords);
          penalty = min 15 ((url_length - 75) div 10 * 3)
      in rule_if (url_length > 75) penalty (LongURL url_length penalty)
       @ rule_if has_ip_in_url 25 IPAddressUsed
       @ (if num_subdomains \<ge> 3 then [(10, ExcessiveSubdomains num_subdomains)]
          else if num_subdomains = 2 then [(5, MultipleSubdomains num_subdomains)]
          else [])
       @ (if suspicious_patterns \<ge> 3
          then [(15, MultiplePhishingKeywords (take 3 matched_keywords))]
          else if suspicious_patterns \<ge> 1 then [(8, PhishingKeyword (hd matched_keywords))]
          else [])
       @ rule_if has_suspicious_tld 12 (HighRiskTLD suffix)
       @ rule_if (num_hyphens \<ge> 4) 8 (ExcessiveHyphens num_hyphens)
       @ rule_if (special_char_count \<ge> 5) 7 (SuspiciousSpecialChars special_char_count)
       @ rule_if has_at_symbol 15 AtSymbol
       @ rule_if (pct_encoded_count \<ge> 3) 8 (EncodingObfuscation pct_encoded_count)
       @ rule_if has_double_encoding 12 DoubleEncoding
       @ rule_if has_punycode 10 Punycode
       @ rule_if is_url_shortener 10 URLShortener
       @ rule_if (num_digits_in_domain \<ge> 4) 5 (ManyDigits num_digits_in_domain))"

text \<open>The body of \<^verbatim>\<open>analyze_url_structure\<close> once \<^verbatim>\<open>urlparse\<close> has returned.\<close>

definition url_structure_of :: "env \<Rightarrow> string \<Rightarrow> parse_result \<Rightarrow> url_struct" where
  "url_structure_of e url parsed =
         (let hostname' = (case hostname parsed of None \<Rightarrow> [] | Some h \<Rightarrow> h);
              path' = path parsed;
              query' = query parsed;
              full_url = py_lower url;
              ext = tldextract e url;
              domain = ext_domain ext;
              suffix = (if ext_suffix ext \<noteq> [] then ''.'' @ ext_suffix ext else []);
              subdomain = ext_subdomain ext;
              url_length = int (length url);
              num_dots = count_char (CHR ''.'') url;
              num_hyphens = count_char (CHR ''-'') url;
              num_query_params = parse_qs_len e query';
              special_char_count = count_special url;
              num_digits_in_domain = count_digits hostname';
              stripped = strip_chars (\<lambda>c. c = CHR ''/'') path';
              path_depth = (if stripped \<noteq> [] then count_char (CHR ''/'') stripped else 0);
              has_ip_in_url = (ip_address e hostname' \<or> search_ipv4 False hostname');
              num_subdomains =
                (if subdomain \<noteq> [] then count_char (CHR ''.'') subdomain + 1 else 0);
              matched_keywords = filter (\<lambda>kw. py_in kw full_url) PHISHING_KEYWORDS;
              suspicious_patterns = int (length matched_keywords);
              has_suspicious_tld = (suffix \<in> set SUSPICIOUS_TLDS);
              is_url_shortener = list_ex (\<lambda>s. py_in s hostname') url_shorteners;
              pct_encoded_count = int (count_pct_encoded url);
              has_double_encoding = search_double_encoding url;
              has_at_symbol = py_in ''@'' (netloc parsed);
              has_punycode = py_in ''xn--'' (py_lower hostname');
              triggered =
                url_structure_rules url_length has_ip_in_url num_subdomains matched_keywords
                  has_suspicious_tld suffix num_hyphens special_char_count has_at_symbol
                  pct_encoded_count has_double_encoding has_punycode is_url_shortener
                  num_digits_in_domain;
              rule_score = sum_list (map fst triggered)
          in \<lparr> us_url_length = url_length,
                   us_num_subdomains = num_subdomains,
                   us_has_ip_in_url = has_ip_in_url,
                   us_suspicious_patterns = suspicious_patterns,
                   us_special_char_count = special_char_count,
                   us_num_hyphens = num_hyphens,
                   us_num_dots = num_dots,
                   us_path_depth = path_depth,
                   us_pct_encoded_count = pct_encoded_count,
                   us_has_at_symbol = has_at_symbol,
                   us_has_punycode = has_punycode,
                   us_is_url_shortener = is_url_shortener,
                   us_has_suspicious_tld = has_suspicious_tld,
                   us_matched_keywords = matched_keywords,
                   us_num_query_params = num_query_params,
                   us_rule_score = min rule_score 50,
                   us_rules_triggered = map snd triggered,
                   us_domain = domain,
                   us_suffix = suffix,
                   us_subdomain = subdomain \<rparr>)"

definition analyze_url_structure :: "env \<Rightarrow> string \<Rightarrow> py_exception + url_struct" where
  "analyze_url_structure e url =
     (case urlparse e url of
        Inl exn \<Rightarrow> Inl exn
      | Inr parsed \<Rightarrow> Inr (url_structure_of e url parsed))"

subsection \<open>Parameter 2: \<^verbatim>\<open>analyze_domain\<close>\<close>

record domain_info =
  di_domain_age_days :: int
  di_creation_date :: "string option"
  di_expiry_date :: "string option"
  di_registrar :: string
  di_country :: string
  di_is_newly_registered :: bool
  di_rule_score :: int
  di_rules_triggered :: "rule list"
  di_whois_available :: bool

text \<open>
  \<^verbatim>\<open>f"{ext.domain}.{ext.suffix}" if ext.suffix else ext.domain\<close>, as
  \<^verbatim>\<open>analyze_domain\<close>, \<^verbatim>\<open>check_blacklist\<close> and \<^verbatim>\<open>scan_url\<close> compute it.
\<close>

definition registered_domain :: "env \<Rightarrow> string \<Rightarrow> string" where
  "registered_domain e url =
     (let ext = tldextract e url
      in if ext_suffix ext \<noteq> [] then ext_domain ext @ ''.'' @ ext_suffix ext
         else ext_domain ext)"

text \<open>\<^verbatim>\<open>str(x or "Unknown")[:n]\<close>.\<close>

definition or_unknown :: "string option \<Rightarrow> nat \<Rightarrow> string" where
  "or_unknown x n = take n (case x of None \<Rightarrow> ''Unknown'' | Some v \<Rightarrow> v)"

text \<open>The scoring at the end of \<^verbatim>\<open>analyze_domain\<close>: score and rules from the age.\<close>

definition domain_age_rules :: "int \<Rightarrow> (int \<times> rule) list" where
  "domain_age_rules age =
     (if age = - 1 then [(10, DomainAgeUnknown)]
      else if age < 30 then [(20, VeryNewDomain age)]
      else if age < 180 then [(12, RecentlyRegistered age)]
      else if age < 365 then [(5, RelativelyNew age)]
      else [])"

definition analyze_domain :: "env \<Rightarrow> string \<Rightarrow> domain_info \<times> io_event list" where
  "analyze_domain e url =
     (let registered = registered_domain e url;
          result = \<lparr> di_domain_age_days = - 1,
                     di_creation_date = None,
                     di_expiry_date = None,
                     di_registrar = ''Unknown'',
                     di_country = ''Unknown'',
                     di_is_newly_registered = True,
                     di_rule_score = 0,
                     di_rules_triggered = [],
                     di_whois_available = WHOIS_AVAILABLE e \<rparr>
      in if registered \<in> set BENIGN_DOMAINS
         then (result\<lparr> di_domain_age_days := 5000, di_is_newly_registered := False \<rparr>, [])
         else if \<not> WHOIS_AVAILABLE e
         then (result\<lparr> di_rule_score := 8, di_rules_triggered := [WhoisUnavailable] \<rparr>, [])
         else
           (case whois e registered of
              WhoisRaised \<Rightarrow>
                (result\<lparr> di_rule_score := 5, di_rules_triggered := [WhoisLookupFailed] \<rparr>,
                 [WhoisQuery registered])
            | WhoisOk w \<Rightarrow>
                (let result1 =
                       (case w_creation_age w of
                          None \<Rightarrow> result
                        | Some age_days \<Rightarrow>
                            result\<lparr> di_domain_age_days := age_days,
                                    di_creation_date := Some (take 10 (w_creation_str w)),
                                    di_is_newly_registered := (age_days < 180) \<rparr>);
                     result2 =
                       (case w_expiry_str w of
                          None \<Rightarrow> result1
                        | Some x \<Rightarrow> result1\<lparr> di_expiry_date := Some (take 10 x) \<rparr>);
                     result3 = result2\<lparr> di_registrar := or_unknown (w_registrar w) 80,
                                        di_country := or_unknown (w_country w) 5 \<rparr>;
                     age = di_domain_age_days result3;
                     triggered = domain_age_rules age;
                     score = sum_list (map fst triggered)
                 in (result3\<lparr> di_rule_score := min score 25,
                             di_rules_triggered := map snd triggered \<rparr>,
                     [WhoisQuery registered]))))"

subsection \<open>Parameter 3: \<^verbatim>\<open>analyze_ssl\<close>\<close>

record ssl_details =
  sd_issuer :: "string option"
  sd_subject :: "string option"
  sd_expiry :: "string option"
  sd_days_left :: int

record ssl_info =
  ssl_has_https :: bool
  ssl_has_valid_ssl :: bool
  ssl_issuer :: "string option"
  ssl_subject :: "string option"
  ssl_expiry :: "string option"
  ssl_days_left :: "int option"
  ssl_version :: "string option"
  ssl_is_self_signed :: bool
  ssl_rule_score :: int
  ssl_rules_triggered :: "rule list"
  ssl_ssl_info :: "ssl_details option"

text \<open>\<^verbatim>\<open>dict(pairs).get(k, d)\<close>: of two pairs with one key the later one counts.\<close>

definition dict_get :: "(string \<times> string) list \<Rightarrow> string \<Rightarrow> string \<Rightarrow> string" where
  "dict_get pairs k d = (case map_of (rev pairs) k of None \<Rightarrow> d | Some v \<Rightarrow> v)"

text \<open>\<^verbatim>\<open>dict(a) == dict(b)\<close>.\<close>

definition dict_eq :: "(string \<times> string) list \<Rightarrow> (string \<times> string) list \<Rightarrow> bool" where
  "dict_eq a b =
     list_all (\<lambda>k. map_of (rev a) k = map_of (rev b) k) (map fst a @ map fst b)"

text \<open>The scoring after a successful handshake.\<close>

definition ssl_cert_rules :: "bool \<Rightarrow> int \<Rightarrow> (int \<times> rule) list" where
  "ssl_cert_rules is_self_signed days_left =
     rule_if is_self_signed 15 SelfSigned
     @ (if days_left < 0 then [(18, CertExpired \<bar>days_left\<bar>)]
        else if days_left < 15 then [(10, CertExpiringVerySoon days_left)]
        else if days_left < 30 then [(5, CertExpiringSoon days_left)]
        else [])"

text \<open>The body of \<^verbatim>\<open>analyze_ssl\<close> once \<^verbatim>\<open>urlparse\<close> has returned.\<close>

definition ssl_check_of :: "env \<Rightarrow> parse_result \<Rightarrow> ssl_info \<times> io_event list" where
  "ssl_check_of e parsed =
         (let hostname' = (case hostname parsed of None \<Rightarrow> [] | Some h \<Rightarrow> h);
              has_https = (py_lower (scheme parsed) = ''https'');
              result = \<lparr> ssl_has_https = has_https,
                         ssl_has_valid_ssl = False,
                         ssl_issuer = None,
                         ssl_subject = None,
                         ssl_expiry = None,
                         ssl_days_left = None,
                         ssl_version = None,
                         ssl_is_self_signed = False,
                         ssl_rule_score = 0,
                         ssl_rules_triggered = [],
                         ssl_ssl_info = None \<rparr>
          in if \<not> has_https
             then (result\<lparr> ssl_rule_score := 20, ssl_rules_triggered := [NoHTTPS] \<rparr>, [])
             else if hostname' = []
             then (result\<lparr> ssl_rule_score := 5, ssl_rules_triggered := [NoHostname] \<rparr>, [])
             else
                 (case tls_connect e hostname' of
                    TlsSSLError msg \<Rightarrow>
                      result\<lparr> ssl_rule_score := 18,
                              ssl_rules_triggered := [SSLValidationFailed (take 60 msg)] \<rparr>
                  | TlsConnectError \<Rightarrow>
                      result\<lparr> ssl_rule_score := 8,
                              ssl_rules_triggered := [SSLCouldNotConnect] \<rparr>
                  | TlsOtherError msg \<Rightarrow>
                      result\<lparr> ssl_rule_score := 5,
                              ssl_rules_triggered := [SSLCheckError (take 50 msg)] \<rparr>
                  | TlsConnected cert \<Rightarrow>
                      (let expire_str = cert_notAfter cert;
                           days_left = (if expire_str \<noteq> [] then cert_days_left cert else 999);
                           result1 =
                             (if expire_str \<noteq> []
                              then result\<lparr> ssl_expiry := Some (take 11 expire_str),
                                           ssl_days_left := Some days_left \<rparr>
                              else result);
                           issuer = cert_issuer cert;
                           subject = cert_subject cert;
                           result2 =
                             result1\<lparr> ssl_issuer :=
                                        Some (dict_get issuer ''organizationName'' ''Unknown''),
                                      ssl_subject :=
                                        Some (dict_get subject ''commonName'' hostname'),
                                      ssl_version := Some (cert_version cert) \<rparr>;
                           result3 =
                             result2\<lparr> ssl_is_self_signed := dict_eq issuer subject,
                                      ssl_has_valid_ssl := True \<rparr>;
                           result4 =
                             result3\<lparr> ssl_ssl_info :=
                                        Some \<lparr> sd_issuer = ssl_issuer result3,
                                               sd_subject = ssl_subject result3,
                                               sd_expiry = ssl_expiry result3,
                                               sd_days_left = days_left \<rparr> \<rparr>;
                           triggered = ssl_cert_rules (ssl_is_self_signed result4) days_left;
                           score = sum_list (map fst triggered)
                       in result4\<lparr> ssl_rule_score := min score 20,
                                   ssl_rules_triggered := map snd triggered \<rparr>),
                  [TlsHandshake hostname']))"

definition analyze_ssl ::
  "env \<Rightarrow> string \<Rightarrow> py_exception + (ssl_info \<times> io_event list)" where
  "analyze_ssl e url =
     (case urlparse e url of
        Inl exn \<Rightarrow> Inl exn
      | Inr parsed \<Rightarrow> Inr (ssl_check_of e parsed))"

subsection \<open>Parameter 4: \<^verbatim>\<open>check_blacklist\<close>\<close>

record blacklist_result =
  bl_is_blacklisted :: bool
  bl_blacklist_sources :: "string list"
  bl_rule_score :: int
  bl_rules_triggered :: "rule list"

definition check_blacklist :: "env \<Rightarrow> string \<Rightarrow> blacklist_result" where
  "check_blacklist e url =
     (let registered = registered_domain e url;
          full_lower = py_lower url;
          local_hit = (registered \<in> set BLACKLISTED_DOMAINS_SAMPLE);
          sources1 = (if local_hit then [''Local Threat Database''] else []);
          domain_hash = md5_hexdigest e registered;
          hash_hit = (take 16 domain_hash \<in> set DEMO_MALICIOUS_HASHES);
          is_blacklisted = (local_hit \<or> hash_hit);
          blacklist_sources =
            (if hash_hit then sources1 @ [''Threat Hash Database''] else sources1);
          score = (if is_blacklisted then 40 else 0);
          rules = (if is_blacklisted then [Blacklisted blacklist_sources] else [])
      in \<lparr> bl_is_blacklisted = is_blacklisted,
           bl_blacklist_sources = blacklist_sources,
           bl_rule_score = score,
           bl_rules_triggered = rules \<rparr>)"

subsection \<open>Parameter 5: \<^verbatim>\<open>analyze_redirects\<close>\<close>

record hop =
  hop_url :: string
  hop_status_code :: int
  hop_scheme :: string

record redirect_result =
  rd_redirect_count :: int
  rd_redirect_chain :: "hop list"
  rd_final_url :: string
  rd_crosses_domains :: bool
  rd_has_suspicious_hops :: bool
  rd_rule_score :: int
  rd_rules_triggered :: "rule list"

text \<open>
  The chain: one entry per response of \<^verbatim>\<open>resp.history\<close>, then the final response.
  \<^verbatim>\<open>urlparse\<close> runs on every url and may raise.
\<close>

fun build_chain :: "env \<Rightarrow> (string \<times> int) list \<Rightarrow> py_exception + hop list" where
  "build_chain e [] = Inr []"
| "build_chain e ((u, st) # rs) =
     (case urlparse e u of
        Inl exn \<Rightarrow> Inl exn
      | Inr parsed \<Rightarrow>
          (case build_chain e rs of
             Inl exn \<Rightarrow> Inl exn
           | Inr hops \<Rightarrow>
               Inr (\<lparr> hop_url = u, hop_status_code = st, hop_scheme = scheme parsed \<rparr> # hops)))"

text \<open>The key \<^verbatim>\<open>f"{ext.domain}.{ext.suffix}"\<close> under which a hop's domain is counted.\<close>

definition hop_domain :: "env \<Rightarrow> hop \<Rightarrow> string" where
  "hop_domain e h =
     (let ext = tldextract e (hop_url h) in ext_domain ext @ ''.'' @ ext_suffix ext)"

text \<open>\<^verbatim>\<open>domains_visited\<close>, a set: its elements without repetition.\<close>

definition domains_visited :: "env \<Rightarrow> hop list \<Rightarrow> string list" where
  "domains_visited e chain = remdups (map (hop_domain e) chain)"

text \<open>
  The loop over \<^verbatim>\<open>range(len(chain) - 1)\<close> that stops at the first pair whose schemes
  are \<^verbatim>\<open>https\<close> then \<^verbatim>\<open>http\<close>.
\<close>

fun has_downgrade :: "hop list \<Rightarrow> bool" where
  "has_downgrade (a # b # rest) =
     (if hop_scheme a = ''https'' \<and> hop_scheme b = ''http'' then True
      else has_downgrade (b # rest))"
| "has_downgrade _ = False"

text \<open>The scoring after a traced chain.\<close>

definition redirect_rules :: "int \<Rightarrow> bool \<Rightarrow> int \<Rightarrow> bool \<Rightarrow> (int \<times> rule) list" where
  "redirect_rules rc crosses_domains n_domains has_suspicious_hops =
     (if rc \<ge> 5 then [(15, ExcessiveRedirects rc)]
      else if rc \<ge> 3 then [(8, MultipleRedirects rc)]
      else [])
     @ rule_if crosses_domains 10 (CrossesDomains n_domains)
     @ rule_if has_suspicious_hops 12 Downgrade"

definition analyze_redirects :: "env \<Rightarrow> string \<Rightarrow> redirect_result \<times> io_event list" where
  "analyze_redirects e url =
     (let result = \<lparr> rd_redirect_count = 0,
                     rd_redirect_chain = [],
                     rd_final_url = url,
                     rd_crosses_domains = False,
                     rd_has_suspicious_hops = False,
                     rd_rule_score = 0,
                     rd_rules_triggered = [] \<rparr>
      in (case http_get e url of
            HttpTooManyRedirects \<Rightarrow>
              result\<lparr> rd_redirect_count := MAX_REDIRECTS,
                      rd_rule_score := 18,
                      rd_rules_triggered := [RedirectLoop] \<rparr>
          | HttpSSLError \<Rightarrow>
              result\<lparr> rd_rule_score := 5, rd_rules_triggered := [RedirectSSLError] \<rparr>
          | HttpConnectionError \<Rightarrow>
              result\<lparr> rd_rule_score := 5, rd_rules_triggered := [RedirectCouldNotConnect] \<rparr>
          | HttpTimeout \<Rightarrow>
              result\<lparr> rd_rule_score := 3, rd_rules_triggered := [RedirectTimedOut] \<rparr>
          | HttpOtherError msg \<Rightarrow>
              result\<lparr> rd_rule_score := 3, rd_rules_triggered := [RedirectError (take 50 msg)] \<rparr>
          | HttpResponse history final \<Rightarrow>
              (case build_chain e (history @ [final]) of
                 Inl (ValueError msg) \<Rightarrow>
                   result\<lparr> rd_rule_score := 3,
                           rd_rules_triggered := [RedirectError (take 50 msg)] \<rparr>
               | Inr chain \<Rightarrow>
                   (let result1 = result\<lparr> rd_redirect_count := int (length history),
                                           rd_redirect_chain := chain,
                                           rd_final_url := fst final \<rparr>;
                        visited = domains_visited e chain;
                        result2 = result1\<lparr> rd_crosses_domains := (length visited > 2) \<rparr>;
                        result3 = result2\<lparr> rd_has_suspicious_hops := has_downgrade chain \<rparr>;
                        rc = rd_redirect_count result3;
                        triggered =
                          redirect_rules rc (rd_crosses_domains result3) (int (length visited))
                            (rd_has_suspicious_hops result3);
                        score = sum_list (map fst triggered)
                    in result3\<lparr> rd_rule_score := min score 20,
                                rd_rules_triggered := map snd triggered \<rparr>))),
          [HttpGet url])"

subsection \<open>The composite scanner: \<^verbatim>\<open>scan_url\<close>\<close>

record scan_result =
  sr_url :: string
  sr_domain :: string
  sr_url_struct :: url_struct
  sr_domain_info :: domain_info
  sr_ssl_info :: ssl_info
  sr_blacklist :: blacklist_result
  sr_redirects :: redirect_result
  sr_rule_score :: int
  sr_all_rules :: "rule list"
  sr_feature_vector :: feature_vector
  sr_url_length :: int
  sr_num_subdomains :: int
  sr_has_https :: bool
  sr_domain_age_days :: int
  sr_redirect_count :: int
  sr_is_blacklisted :: bool
  sr_has_ip_in_url :: bool
  sr_suspicious_patterns :: int
  sr_has_valid_ssl :: bool
  sr_special_char_count :: int
  sr_redirect_chain :: "hop list"

text \<open>
  What a call of \<^verbatim>\<open>scan_url\<close> ends with other than a scan result: the returned dict
  \<^verbatim>\<open>{"error": "Invalid URL format. ..."}\<close>, or an exception that no handler catches.
\<close>

datatype scan_error = InvalidURLFormat | Uncaught py_exception

text \<open>The first lines of \<^verbatim>\<open>scan_url\<close>: strip, then prepend the scheme.\<close>

definition normalize_url :: "string \<Rightarrow> string" where
  "normalize_url raw =
     (let url = py_strip raw
      in if \<not> (startswith url ''http://'' \<or> startswith url ''https://'')
         then ''https://'' @ url else url)"

definition build_feature_vector ::
  "url_struct \<Rightarrow> domain_info \<Rightarrow> ssl_info \<Rightarrow> blacklist_result \<Rightarrow> redirect_result
     \<Rightarrow> feature_vector" where
  "build_feature_vector url_struct domain_info ssl_info blacklist redirects =
     [(''url_length'', us_url_length url_struct),
      (''num_subdomains'', us_num_subdomains url_struct),
      (''has_https'', of_bool (ssl_has_https ssl_info)),
      (''domain_age_days'', di_domain_age_days domain_info),
      (''redirect_count'', rd_redirect_count redirects),
      (''is_blacklisted'', of_bool (bl_is_blacklisted blacklist)),
      (''has_ip_in_url'', of_bool (us_has_ip_in_url url_struct)),
      (''suspicious_patterns'', us_suspicious_patterns url_struct),
      (''has_valid_ssl'', of_bool (ssl_has_valid_ssl ssl_info)),
      (''special_char_count'', us_special_char_count url_struct),
      (''num_hyphens'', us_num_hyphens url_struct),
      (''path_depth'', us_path_depth url_struct),
      (''pct_encoded_count'', us_pct_encoded_count url_struct),
      (''has_at_symbol'', of_bool (us_has_at_symbol url_struct)),
      (''is_url_shortener'', of_bool (us_is_url_shortener url_struct))]"

text \<open>
  The aggregation at the end of \<^verbatim>\<open>scan_url\<close>: the capped sum of the stage scores,
  the rules in stage order, the feature vector and the result dict.
\<close>

definition aggregate ::
  "string \<Rightarrow> string \<Rightarrow> url_struct \<Rightarrow> domain_info \<Rightarrow> ssl_info \<Rightarrow> blacklist_result
     \<Rightarrow> redirect_result \<Rightarrow> scan_result" where
  "aggregate url domain url_struct domain_info ssl_info blacklist redirects =
     (let total_rule_score =
            us_rule_score url_struct + di_rule_score domain_info
            + ssl_rule_score ssl_info + bl_rule_score blacklist
            + rd_rule_score redirects;
          total_rule_score' = min total_rule_score 100;
          all_rules =
            us_rules_triggered url_struct
            @ di_rules_triggered domain_info
            @ ssl_rules_triggered ssl_info
            @ bl_rules_triggered blacklist
            @ rd_rules_triggered redirects;
          feature_vector =
            build_feature_vector url_struct domain_info ssl_info blacklist redirects
      in \<lparr> sr_url = url,
           sr_domain = domain,
           sr_url_struct = url_struct,
           sr_domain_info = domain_info,
           sr_ssl_info = ssl_info,
           sr_blacklist = blacklist,
           sr_redirects = redirects,
           sr_rule_score = total_rule_score',
           sr_all_rules = all_rules,
           sr_feature_vector = feature_vector,
           sr_url_length = us_url_length url_struct,
           sr_num_subdomains = us_num_subdomains url_struct,
           sr_has_https = ssl_has_https ssl_info,
           sr_domain_age_days = di_domain_age_days domain_info,
           sr_redirect_count = rd_redirect_count redirects,
           sr_is_blacklisted = bl_is_blacklisted blacklist,
           sr_has_ip_in_url = us_has_ip_in_url url_struct,
           sr_suspicious_patterns = us_suspicious_patterns url_struct,
           sr_has_valid_ssl = ssl_has_valid_ssl ssl_info,
           sr_special_char_count = us_special_char_count url_struct,
           sr_redirect_chain = rd_redirect_chain redirects \<rparr>)"

definition scan_url :: "env \<Rightarrow> string \<Rightarrow> (scan_error + scan_result) \<times> io_event list" where
  "scan_url e raw =
     (let url = normalize_url raw
      in case urlparse e url of
           Inl exn \<Rightarrow> (Inl (Uncaught exn), [])
         | Inr parsed \<Rightarrow>
             if netloc parsed = [] then (Inl InvalidURLFormat, [])
             else
               (let domain = registered_domain e url
                in case analyze_url_structure e url of
                     Inl exn \<Rightarrow> (Inl (Uncaught exn), [])
                   | Inr url_struct \<Rightarrow>
                       (let (domain_info, io1) = analyze_domain e url
                        in case analyze_ssl e url of
                             Inl exn \<Rightarrow> (Inl (Uncaught exn), io1)
                           | Inr (ssl_info, io2) \<Rightarrow>
                               (let blacklist = check_blacklist e url;
                                    (redirects, io3) = analyze_redirects e url
                                in (Inr (aggregate url domain url_struct domain_info ssl_info
                                           blacklist redirects),
                                    io1 @ io2 @ io3)))))"

subsection \<open>A concrete environment\<close>

text \<open>
  To run the model on concrete URLs, the libraries get small stand-ins: enough of
  \<^verbatim>\<open>urlsplit\<close> for URLs of the form scheme, authority, path, query and fragment
  (an authority with a bracket, an IPv6 literal, is outside it and is refused with
  \<^verbatim>\<open>ValueError\<close>); a public-suffix list of a few entries; dotted-quad IPv4
  addresses; a digest that hits no list; a registry, a TLS peer and an HTTP server with
  fixed answers. The stand-ins serve the concrete examples only: every general theorem
  is stated for an arbitrary \<open>env\<close>.
\<close>

definition is_ascii_alpha :: "char \<Rightarrow> bool" where
  "is_ascii_alpha c =
     (let n = (of_char c :: nat) in (65 \<le> n \<and> n \<le> 90) \<or> (97 \<le> n \<and> n \<le> 122))"

definition is_scheme_char :: "char \<Rightarrow> bool" where
  "is_scheme_char c = (is_ascii_alpha c \<or> is_digit c \<or> c \<in> set ''+-.'')"

definition demo_urlparse :: "string \<Rightarrow> py_exception + parse_result" where
  "demo_urlparse url =
     (let pre = takeWhile (\<lambda>c. c \<noteq> CHR '':'') url;
          has_scheme = (length pre < length url \<and> pre \<noteq> [] \<and> is_ascii_alpha (hd pre)
                        \<and> list_all is_scheme_char pre);
          rest = (if has_scheme then drop (length pre + 1) url else url);
          has_netloc = startswith rest ''//'';
          nl = (if has_netloc then takeWhile (\<lambda>c. c \<notin> set ''/?#'') (drop 2 rest) else []);
          rest1 = (if has_netloc then dropWhile (\<lambda>c. c \<notin> set ''/?#'') (drop 2 rest) else rest);
          before_fragment = takeWhile (\<lambda>c. c \<noteq> CHR ''#'') rest1;
          pth = takeWhile (\<lambda>c. c \<noteq> CHR ''?'') before_fragment;
          hostinfo = rev (takeWhile (\<lambda>c. c \<noteq> CHR ''@'') (rev nl));
          host = takeWhile (\<lambda>c. c \<noteq> CHR '':'') hostinfo
      in if CHR ''['' \<in> set nl \<or> CHR '']'' \<in> set nl
         then Inl (ValueError ''Invalid IPv6 URL'')
         else Inr \<lparr> scheme = (if has_scheme then py_lower pre else []),
                    netloc = nl,
                    hostname = (if host = [] then None else Some (py_lower host)),
                    path = pth,
                    query = drop (length pth + 1) before_fragment,
                    fragment = drop (length before_fragment + 1) rest1 \<rparr>)"

fun split_on :: "char \<Rightarrow> string \<Rightarrow> string list" where
  "split_on c [] = [[]]"
| "split_on c (x # xs) =
     (if x = c then [] # split_on c xs
      else (case split_on c xs of y # ys \<Rightarrow> (x # y) # ys | [] \<Rightarrow> [[x]]))"

fun join :: "string \<Rightarrow> string list \<Rightarrow> string" where
  "join sep [] = []"
| "join sep [x] = x"
| "join sep (x # y # ys) = x @ sep @ join sep (y # ys)"

definition demo_suffixes :: "string list" where
  "demo_suffixes = [''com'', ''net'', ''org'', ''tk'', ''xyz'', ''us'', ''uk'', ''co.uk'']"

definition demo_tldextract :: "string \<Rightarrow> extract_result" where
  "demo_tldextract url =
     (let host = (case demo_urlparse url of
                    Inl _ \<Rightarrow> []
                  | Inr p \<Rightarrow> (case hostname p of None \<Rightarrow> [] | Some h \<Rightarrow> h));
          labels = split_on (CHR ''.'') host;
          n = length labels
      in if ipv4_groups 3 host
         then \<lparr> ext_subdomain = [], ext_domain = host, ext_suffix = [] \<rparr>
         else if 3 \<le> n \<and> join ''.'' (drop (n - 2) labels) \<in> set demo_suffixes
         then \<lparr> ext_subdomain = join ''.'' (take (n - 3) labels),
                ext_domain = labels ! (n - 3),
                ext_suffix = join ''.'' (drop (n - 2) labels) \<rparr>
         else if 2 \<le> n \<and> last labels \<in> set demo_suffixes
         then \<lparr> ext_subdomain = join ''.'' (take (n - 2) labels),
                ext_domain = labels ! (n - 2),
                ext_suffix = last labels \<rparr>
         else \<lparr> ext_subdomain = join ''.'' (butlast labels),
                ext_domain = last labels,
                ext_suffix = [] \<rparr>)"

definition demo_cert :: "string \<Rightarrow> peer_cert" where
  "demo_cert h =
     \<lparr> cert_notAfter = ''Jan  1 00:00:00 2030 GMT'',
       cert_days_left = 60,
       cert_issuer = [(''countryName'', ''US''), (''organizationName'', ''Example CA'')],
       cert_subject = [(''commonName'', h)],
       cert_version = ''TLSv1.3'' \<rparr>"

definition demo_whois :: "string \<Rightarrow> whois_outcome" where
  "demo_whois d =
     (if d = ''example.com''
      then WhoisOk \<lparr> w_creation_age = Some 100,
                     w_creation_str = ''2026-07-27 00:00:00'',
                     w_expiry_str = Some ''2027-07-27 00:00:00'',
                     w_registrar = Some ''Example Registrar'',
                     w_country = Some ''US'' \<rparr>
      else WhoisRaised)"

definition demo_env :: env where
  "demo_env =
     \<lparr> urlparse = demo_urlparse,
       tldextract = demo_tldextract,
       ip_address = (\<lambda>h. ipv4_groups 3 h \<and> list_all (\<lambda>c. is_digit c \<or> c = CHR ''.'') h),
       parse_qs_len = (\<lambda>q. if q = [] then 0 else count_char (CHR ''&'') q + 1),
       md5_hexdigest = (\<lambda>s. ''d41d8cd98f00b204e9800998ecf8427e''),
       WHOIS_AVAILABLE = True,
       whois = demo_whois,
       tls_connect = (\<lambda>h. TlsConnected (demo_cert h)),
       http_get = (\<lambda>u. HttpResponse [] (u, 200)) \<rparr>"

text \<open>A server that answers with six redirects over three domains, one of them a downgrade.\<close>

definition demo_history :: "(string \<times> int) list" where
  "demo_history =
     [(''https://a.com/'', 301), (''https://a.com/1'', 302), (''http://b.com/'', 302),
      (''http://b.com/2'', 302), (''http://c.com/'', 301), (''http://c.com/3'', 302)]"

definition demo_redirect_env :: env where
  "demo_redirect_env =
     demo_env\<lparr> http_get := (\<lambda>u. HttpResponse demo_history (''http://c.com/end'', 200)) \<rparr>"

subsection \<open>The claim's notion of a scheme\<close>

text \<open>
  The claim's words "the string has a scheme", for comparison with the test the code
  makes: the string starts with a scheme name (a letter, then letters, digits,
  \<^verbatim>\<open>+\<close>, \<^verbatim>\<open>-\<close> or \<^verbatim>\<open>.\<close>) followed by \<^verbatim>\<open>://\<close>.
\<close>

definition spec_has_scheme :: "string \<Rightarrow> bool" where
  "spec_has_scheme s =
     (let pre = takeWhile (\<lambda>c. c \<noteq> CHR '':'') s
      in pre \<noteq> [] \<and> is_ascii_alpha (hd pre) \<and> list_all is_scheme_char pre
         \<and> startswith (drop (length pre) s) ''://'')"

section \<open>Properties\<close>

subsection \<open>Rounding to the nearest integer and to the nearest float\<close>










lemma py_round_of_int: "py_round (of_int k) = k"
  by (simp add: py_round_def)












subsection \<open>Rounding to decimals\<close>






subsection \<open>The Hybrid Combiner\<close>


lemma is_np_float_op: "is_np (float_op f a b) \<longleftrightarrow> is_np a \<or> is_np b"
  by (simp add: float_op_def Let_def)













subsection \<open>The Anomaly Scorer\<close>


















subsection \<open>Stage scores\<close>

lemma rule_if_sum: "sum_list (map fst (rule_if c d r)) = (if c then d else 0)"
  by (simp add: rule_if_def)

lemma url_structure_rules_nonneg:
  "0 \<le> sum_list (map fst (url_structure_rules a b c d e f g h i j k l m n))"
proof -
  have p: "a > 75 \<Longrightarrow> 0 \<le> min 15 ((a - 75) div 10 * 3)" by simp
  show ?thesis
    unfolding url_structure_rules_def Let_def map_append sum_list_append rule_if_sum
    by (intro add_nonneg_nonneg) (simp_all add: p)
qed

lemma url_structure_of_score:
  "0 \<le> us_rule_score (url_structure_of e url parsed)
   \<and> us_rule_score (url_structure_of e url parsed) \<le> 50"
  unfolding url_structure_of_def Let_def url_struct.simps
  using url_structure_rules_nonneg by (simp only: min_def split: if_splits) auto

lemma analyze_url_structure_score:
  assumes "analyze_url_structure e url = Inr us"
  shows "0 \<le> us_rule_score us \<and> us_rule_score us \<le> 50"
proof (cases "urlparse e url")
  case (Inl exn)
  then show ?thesis using assms by (simp add: analyze_url_structure_def)
next
  case (Inr parsed)
  then have "us = url_structure_of e url parsed"
    using assms by (simp add: analyze_url_structure_def)
  then show ?thesis using url_structure_of_score [of e url parsed] by simp
qed

lemma domain_age_rules_sum:
  "sum_list (map fst (domain_age_rules age)) =
     (if age = - 1 then 10 else if age < 30 then 20 else if age < 180 then 12
      else if age < 365 then 5 else 0)"
  by (simp add: domain_age_rules_def)

lemma analyze_domain_score:
  "0 \<le> di_rule_score (fst (analyze_domain e url))
   \<and> di_rule_score (fst (analyze_domain e url)) \<le> 25"
  by (simp add: analyze_domain_def Let_def domain_age_rules_sum split: whois_outcome.splits)

lemma ssl_cert_rules_sum:
  "sum_list (map fst (ssl_cert_rules ss d)) =
     (if ss then 15 else 0)
     + (if d < 0 then 18 else if d < 15 then 10 else if d < 30 then 5 else 0)"
  by (simp add: ssl_cert_rules_def rule_if_def)

lemma ssl_check_of_score:
  "0 \<le> ssl_rule_score (fst (ssl_check_of e parsed))
   \<and> ssl_rule_score (fst (ssl_check_of e parsed)) \<le> 20"
  by (simp add: ssl_check_of_def Let_def ssl_cert_rules_sum split: tls_outcome.splits)

lemma analyze_ssl_score:
  assumes "analyze_ssl e url = Inr (si, io)"
  shows "0 \<le> ssl_rule_score si \<and> ssl_rule_score si \<le> 20"
proof (cases "urlparse e url")
  case (Inl exn)
  then show ?thesis using assms by (simp add: analyze_ssl_def)
next
  case (Inr parsed)
  then have "si = fst (ssl_check_of e parsed)"
    using assms by (simp add: analyze_ssl_def)
  then show ?thesis using ssl_check_of_score [of e parsed] by simp
qed

lemma redirect_rules_sum:
  "sum_list (map fst (redirect_rules rc cd n sh)) =
     (if rc \<ge> 5 then 15 else if rc \<ge> 3 then 8 else 0)
     + (if cd then 10 else 0) + (if sh then 12 else 0)"
  by (simp add: redirect_rules_def rule_if_def)

lemma analyze_redirects_score:
  "0 \<le> rd_rule_score (fst (analyze_redirects e url))
   \<and> rd_rule_score (fst (analyze_redirects e url)) \<le> 20"
  by (simp add: analyze_redirects_def Let_def redirect_rules_sum
      split: http_outcome.splits sum.splits py_exception.splits)

lemma check_blacklist_score:
  "bl_rule_score (check_blacklist e url)
     = (if bl_blacklist_sources (check_blacklist e url) \<noteq> [] then 40 else 0)"
  by (simp add: check_blacklist_def Let_def)

lemma check_blacklist_matches:
  "bl_rule_score (check_blacklist e url)
     = (if registered_domain e url \<in> set BLACKLISTED_DOMAINS_SAMPLE
           \<or> take 16 (md5_hexdigest e (registered_domain e url)) \<in> set DEMO_MALICIOUS_HASHES
        then 40 else 0)"
  "bl_blacklist_sources (check_blacklist e url)
     = (if registered_domain e url \<in> set BLACKLISTED_DOMAINS_SAMPLE
        then [''Local Threat Database''] else [])
       @ (if take 16 (md5_hexdigest e (registered_domain e url)) \<in> set DEMO_MALICIOUS_HASHES
          then [''Threat Hash Database''] else [])"
  by (simp_all add: check_blacklist_def Let_def)

subsection \<open>The shape of a scan\<close>

lemma scan_url_raises:
  "urlparse e (normalize_url raw) = Inl exn \<Longrightarrow> scan_url e raw = (Inl (Uncaught exn), [])"
  by (simp add: scan_url_def Let_def)

lemma scan_url_parsed:
  assumes "urlparse e (normalize_url raw) = Inr parsed"
  shows "scan_url e raw =
     (if netloc parsed = [] then (Inl InvalidURLFormat, [])
      else (Inr (aggregate (normalize_url raw) (registered_domain e (normalize_url raw))
                   (url_structure_of e (normalize_url raw) parsed)
                   (fst (analyze_domain e (normalize_url raw)))
                   (fst (ssl_check_of e parsed))
                   (check_blacklist e (normalize_url raw))
                   (fst (analyze_redirects e (normalize_url raw)))),
            snd (analyze_domain e (normalize_url raw)) @ snd (ssl_check_of e parsed)
            @ snd (analyze_redirects e (normalize_url raw))))"
  by (simp add: scan_url_def Let_def analyze_url_structure_def analyze_ssl_def assms
      split: prod.splits)

lemma scan_url_result:
  assumes "scan_url e raw = (Inr res, io)"
  obtains parsed where "urlparse e (normalize_url raw) = Inr parsed"
    and "netloc parsed \<noteq> []"
    and "res = aggregate (normalize_url raw) (registered_domain e (normalize_url raw))
                   (url_structure_of e (normalize_url raw) parsed)
                   (fst (analyze_domain e (normalize_url raw)))
                   (fst (ssl_check_of e parsed))
                   (check_blacklist e (normalize_url raw))
                   (fst (analyze_redirects e (normalize_url raw)))"
    and "io = snd (analyze_domain e (normalize_url raw)) @ snd (ssl_check_of e parsed)
            @ snd (analyze_redirects e (normalize_url raw))"
proof (cases "urlparse e (normalize_url raw)")
  case (Inl exn)
  then show ?thesis using assms by (simp add: scan_url_raises)
next
  case (Inr parsed)
  then show ?thesis using assms that [of parsed]
    by (simp add: scan_url_parsed split: if_splits)
qed

lemma aggregate_simps:
  "sr_url (aggregate u d us di si bl rd) = u"
  "sr_domain (aggregate u d us di si bl rd) = d"
  "sr_url_struct (aggregate u d us di si bl rd) = us"
  "sr_domain_info (aggregate u d us di si bl rd) = di"
  "sr_ssl_info (aggregate u d us di si bl rd) = si"
  "sr_blacklist (aggregate u d us di si bl rd) = bl"
  "sr_redirects (aggregate u d us di si bl rd) = rd"
  "sr_rule_score (aggregate u d us di si bl rd) =
     min (us_rule_score us + di_rule_score di + ssl_rule_score si + bl_rule_score bl
          + rd_rule_score rd) 100"
  "sr_feature_vector (aggregate u d us di si bl rd) = build_feature_vector us di si bl rd"
  by (simp_all add: aggregate_def Let_def)

subsection \<open>The Rule Aggregator\<close>

text \<open>
  Claim C2. For every URL and every outcome of the five stages, each stage score stays
  within its cap: the lexical score in \<open>[0, 50]\<close>, the domain-age score in
  \<open>[0, 25]\<close>, the TLS score in \<open>[0, 20]\<close>, the redirect score in \<open>[0, 20]\<close>, and
  the blacklist score exactly 40 when a source matched and exactly 0 otherwise. A source
  matches when the registrable domain is one of \<^verbatim>\<open>BLACKLISTED_DOMAINS_SAMPLE\<close> (the
  source \<^verbatim>\<open>Local Threat Database\<close>) or the first 16 hex digits of its MD5 digest are
  one of \<^verbatim>\<open>DEMO_MALICIOUS_HASHES\<close> (the source \<^verbatim>\<open>Threat Hash Database\<close>), and the
  list of sources names exactly the sources that matched. The rule score of a scan result
  is the sum of the five stage scores capped at 100, hence within \<open>[0, 100]\<close>; its
  blacklist stage is the one of the normalized URL.
\<close>

theorem rule_score_bounds:
  "(\<forall>us. analyze_url_structure e url = Inr us
        \<longrightarrow> 0 \<le> us_rule_score us \<and> us_rule_score us \<le> 50)
   \<and> (0 \<le> di_rule_score (fst (analyze_domain e url))
        \<and> di_rule_score (fst (analyze_domain e url)) \<le> 25)
   \<and> (\<forall>si io. analyze_ssl e url = Inr (si, io)
        \<longrightarrow> 0 \<le> ssl_rule_score si \<and> ssl_rule_score si \<le> 20)
   \<and> (0 \<le> rd_rule_score (fst (analyze_redirects e url))
        \<and> rd_rule_score (fst (analyze_redirects e url)) \<le> 20)
   \<and> bl_rule_score (check_blacklist e url)
        = (if bl_blacklist_sources (check_blacklist e url) \<noteq> [] then 40 else 0)
   \<and> bl_rule_score (check_blacklist e url)
        = (if registered_domain e url \<in> set BLACKLISTED_DOMAINS_SAMPLE
              \<or> take 16 (md5_hexdigest e (registered_domain e url))
                   \<in> set DEMO_MALICIOUS_HASHES
           then 40 else 0)
   \<and> bl_blacklist_sources (check_blacklist e url)
        = (if registered_domain e url \<in> set BLACKLISTED_DOMAINS_SAMPLE
           then [''Local Threat Database''] else [])
          @ (if take 16 (md5_hexdigest e (registered_domain e url))
                  \<in> set DEMO_MALICIOUS_HASHES
             then [''Threat Hash Database''] else [])
   \<and> (\<forall>res io. scan_url e url = (Inr res, io) \<longrightarrow>
          sr_rule_score res
            = min (us_rule_score (sr_url_struct res) + di_rule_score (sr_domain_info res)
                   + ssl_rule_score (sr_ssl_info res) + bl_rule_score (sr_blacklist res)
                   + rd_rule_score (sr_redirects res)) 100
          \<and> 0 \<le> sr_rule_score res \<and> sr_rule_score res \<le> 100
          \<and> 0 \<le> us_rule_score (sr_url_struct res) \<and> us_rule_score (sr_url_struct res) \<le> 50
          \<and> 0 \<le> di_rule_score (sr_domain_info res) \<and> di_rule_score (sr_domain_info res) \<le> 25
          \<and> 0 \<le> ssl_rule_score (sr_ssl_info res) \<and> ssl_rule_score (sr_ssl_info res) \<le> 20
          \<and> 0 \<le> rd_rule_score (sr_redirects res) \<and> rd_rule_score (sr_redirects res) \<le> 20
          \<and> bl_rule_score (sr_blacklist res)
               = (if bl_blacklist_sources (sr_blacklist res) \<noteq> [] then 40 else 0)
          \<and> sr_blacklist res = check_blacklist e (normalize_url url)
          \<and> bl_rule_score (sr_blacklist res)
               = (if registered_domain e (normalize_url url) \<in> set BLACKLISTED_DOMAINS_SAMPLE
                     \<or> take 16 (md5_hexdigest e (registered_domain e (normalize_url url)))
                          \<in> set DEMO_MALICIOUS_HASHES
                  then 40 else 0))"
proof -
  have scan: "sr_rule_score res
            = min (us_rule_score (sr_url_struct res) + di_rule_score (sr_domain_info res)
                   + ssl_rule_score (sr_ssl_info res) + bl_rule_score (sr_blacklist res)
                   + rd_rule_score (sr_redirects res)) 100
          \<and> 0 \<le> sr_rule_score res \<and> sr_rule_score res \<le> 100
          \<and> 0 \<le> us_rule_score (sr_url_struct res) \<and> us_rule_score (sr_url_struct res) \<le> 50
          \<and> 0 \<le> di_rule_score (sr_domain_info res) \<and> di_rule_score (sr_domain_info res) \<le> 25
          \<and> 0 \<le> ssl_rule_score (sr_ssl_info res) \<and> ssl_rule_score (sr_ssl_info res) \<le> 20
          \<and> 0 \<le> rd_rule_score (sr_redirects res) \<and> rd_rule_score (sr_redirects res) \<le> 20
          \<and> bl_rule_score (sr_blacklist res)
               = (if bl_blacklist_sources (sr_blacklist res) \<noteq> [] then 40 else 0)
          \<and> sr_blacklist res = check_blacklist e (normalize_url url)
          \<and> bl_rule_score (sr_blacklist res)
               = (if registered_domain e (normalize_url url) \<in> set BLACKLISTED_DOMAINS_SAMPLE
                     \<or> take 16 (md5_hexdigest e (registered_domain e (normalize_url url)))
                          \<in> set DEMO_MALICIOUS_HASHES
                  then 40 else 0)"
    if h: "scan_url e url = (Inr res, io)" for res io
  proof -
    obtain parsed where
      res: "res = aggregate (normalize_url url) (registered_domain e (normalize_url url))
                   (url_structure_of e (normalize_url url) parsed)
                   (fst (analyze_domain e (normalize_url url)))
                   (fst (ssl_check_of e parsed))
                   (check_blacklist e (normalize_url url))
                   (fst (analyze_redirects e (normalize_url url)))"
      using h by (rule scan_url_result)
    have bl: "0 \<le> bl_rule_score (check_blacklist e (normalize_url url))"
      by (simp add: check_blacklist_score)
    have old: "sr_rule_score res
            = min (us_rule_score (sr_url_struct res) + di_rule_score (sr_domain_info res)
                   + ssl_rule_score (sr_ssl_info res) + bl_rule_score (sr_blacklist res)
                   + rd_rule_score (sr_redirects res)) 100
          \<and> 0 \<le> sr_rule_score res \<and> sr_rule_score res \<le> 100
          \<and> 0 \<le> us_rule_score (sr_url_struct res) \<and> us_rule_score (sr_url_struct res) \<le> 50
          \<and> 0 \<le> di_rule_score (sr_domain_info res) \<and> di_rule_score (sr_domain_info res) \<le> 25
          \<and> 0 \<le> ssl_rule_score (sr_ssl_info res) \<and> ssl_rule_score (sr_ssl_info res) \<le> 20
          \<and> 0 \<le> rd_rule_score (sr_redirects res) \<and> rd_rule_score (sr_redirects res) \<le> 20
          \<and> bl_rule_score (sr_blacklist res)
               = (if bl_blacklist_sources (sr_blacklist res) \<noteq> [] then 40 else 0)"
      unfolding res aggregate_simps
      using url_structure_of_score [of e "normalize_url url" parsed]
        analyze_domain_score [of e "normalize_url url"]
        ssl_check_of_score [of e parsed]
        analyze_redirects_score [of e "normalize_url url"]
        check_blacklist_score [of e "normalize_url url"] bl
      by (simp add: min_def)
    have stage: "sr_blacklist res = check_blacklist e (normalize_url url)"
      unfolding res aggregate_simps by (rule refl)
    have lists: "bl_rule_score (sr_blacklist res)
               = (if registered_domain e (normalize_url url) \<in> set BLACKLISTED_DOMAINS_SAMPLE
                     \<or> take 16 (md5_hexdigest e (registered_domain e (normalize_url url)))
                          \<in> set DEMO_MALICIOUS_HASHES
                  then 40 else 0)"
      unfolding stage by (rule check_blacklist_matches(1))
    show ?thesis using old stage lists by (intro conjI) blast+
  qed
  have stages: "(\<forall>us. analyze_url_structure e url = Inr us
        \<longrightarrow> 0 \<le> us_rule_score us \<and> us_rule_score us \<le> 50)
   \<and> (0 \<le> di_rule_score (fst (analyze_domain e url))
        \<and> di_rule_score (fst (analyze_domain e url)) \<le> 25)
   \<and> (\<forall>si io. analyze_ssl e url = Inr (si, io)
        \<longrightarrow> 0 \<le> ssl_rule_score si \<and> ssl_rule_score si \<le> 20)
   \<and> (0 \<le> rd_rule_score (fst (analyze_redirects e url))
        \<and> rd_rule_score (fst (analyze_redirects e url)) \<le> 20)
   \<and> bl_rule_score (check_blacklist e url)
        = (if bl_blacklist_sources (check_blacklist e url) \<noteq> [] then 40 else 0)"
    using analyze_url_structure_score [of e url] analyze_domain_score [of e url]
      analyze_ssl_score [of e url] analyze_redirects_score [of e url]
      check_blacklist_score [of e url]
    by blast
  have all_scans: "\<forall>res io. scan_url e url = (Inr res, io) \<longrightarrow>
          sr_rule_score res
            = min (us_rule_score (sr_url_struct res) + di_rule_score (sr_domain_info res)
                   + ssl_rule_score (sr_ssl_info res) + bl_rule_score (sr_blacklist res)
                   + rd_rule_score (sr_redirects res)) 100
          \<and> 0 \<le> sr_rule_score res \<and> sr_rule_score res \<le> 100
          \<and> 0 \<le> us_rule_score (sr_url_struct res) \<and> us_rule_score (sr_url_struct res) \<le> 50
          \<and> 0 \<le> di_rule_score (sr_domain_info res) \<and> di_rule_score (sr_domain_info res) \<le> 25
          \<and> 0 \<le> ssl_rule_score (sr_ssl_info res) \<and> ssl_rule_score (sr_ssl_info res) \<le> 20
          \<and> 0 \<le> rd_rule_score (sr_redirects res) \<and> rd_rule_score (sr_redirects res) \<le> 20
          \<and> bl_rule_score (sr_blacklist res)
               = (if bl_blacklist_sources (sr_blacklist res) \<noteq> [] then 40 else 0)
          \<and> sr_blacklist res = check_blacklist e (normalize_url url)
          \<and> bl_rule_score (sr_blacklist res)
               = (if registered_domain e (normalize_url url) \<in> set BLACKLISTED_DOMAINS_SAMPLE
                     \<or> take 16 (md5_hexdigest e (registered_domain e (normalize_url url)))
                          \<in> set DEMO_MALICIOUS_HASHES
                  then 40 else 0)"
    using scan by (intro allI impI)
  show ?thesis
    using stages check_blacklist_matches(1) [of e url] check_blacklist_matches(2) [of e url]
      all_scans
    by (intro conjI) blast+
qed

theorem rule_score_bounds_witness:
  "(\<exists>res io. scan_url demo_env ''http://192.168.1.1/login/verify/credentials'' = (Inr res, io)
      \<and> sr_rule_score res = 70
      \<and> us_rule_score (sr_url_struct res) = 45
      \<and> ssl_rule_score (sr_ssl_info res) = 20
      \<and> sr_rule_score res
           = min (us_rule_score (sr_url_struct res) + di_rule_score (sr_domain_info res)
                  + ssl_rule_score (sr_ssl_info res) + bl_rule_score (sr_blacklist res)
                  + rd_rule_score (sr_redirects res)) 100
      \<and> sr_rule_score res \<le> 100)
   \<and> registered_domain demo_env ''https://www.evil-site.tk/login'' = ''evil-site.tk''
   \<and> bl_rule_score (check_blacklist demo_env ''https://www.evil-site.tk/login'') = 40
   \<and> bl_blacklist_sources (check_blacklist demo_env ''https://www.evil-site.tk/login'')
        = [''Local Threat Database'']
   \<and> bl_rule_score (check_blacklist demo_env ''https://www.example.com/login'') = 0
   \<and> bl_rule_score
        (check_blacklist (demo_env\<lparr> md5_hexdigest := (\<lambda>s. ''a1b2c3d4e5f678900123456789abcdef'') \<rparr>)
           ''https://www.example.com/login'') = 40"
proof -
  have "case scan_url demo_env ''http://192.168.1.1/login/verify/credentials'' of
          (Inr res, io) \<Rightarrow>
            sr_rule_score res = 70 \<and> us_rule_score (sr_url_struct res) = 45
            \<and> ssl_rule_score (sr_ssl_info res) = 20
        | _ \<Rightarrow> False"
    by code_simp
  then obtain res io where
    h: "scan_url demo_env ''http://192.168.1.1/login/verify/credentials'' = (Inr res, io)"
    and v: "sr_rule_score res = 70" "us_rule_score (sr_url_struct res) = 45"
      "ssl_rule_score (sr_ssl_info res) = 20"
    by (auto split: prod.splits sum.splits)
  have first: "\<exists>res io.
      scan_url demo_env ''http://192.168.1.1/login/verify/credentials'' = (Inr res, io)
      \<and> sr_rule_score res = 70
      \<and> us_rule_score (sr_url_struct res) = 45
      \<and> ssl_rule_score (sr_ssl_info res) = 20
      \<and> sr_rule_score res
           = min (us_rule_score (sr_url_struct res) + di_rule_score (sr_domain_info res)
                  + ssl_rule_score (sr_ssl_info res) + bl_rule_score (sr_blacklist res)
                  + rd_rule_score (sr_redirects res)) 100
      \<and> sr_rule_score res \<le> 100"
    using rule_score_bounds [of demo_env "''http://192.168.1.1/login/verify/credentials''"] h v
    by blast
  have e1: "registered_domain demo_env ''https://www.evil-site.tk/login'' = ''evil-site.tk''"
    by code_simp
  have e2: "bl_rule_score (check_blacklist demo_env ''https://www.evil-site.tk/login'') = 40"
    by code_simp
  have e3: "bl_blacklist_sources (check_blacklist demo_env ''https://www.evil-site.tk/login'')
        = [''Local Threat Database'']"
    by code_simp
  have e4: "bl_rule_score (check_blacklist demo_env ''https://www.example.com/login'') = 0"
    by code_simp
  have e5: "bl_rule_score
        (check_blacklist (demo_env\<lparr> md5_hexdigest := (\<lambda>s. ''a1b2c3d4e5f678900123456789abcdef'') \<rparr>)
           ''https://www.example.com/login'') = 40"
    by code_simp
  show ?thesis using first e1 e2 e3 e4 e5 by (intro conjI)
qed

subsection \<open>Input validation\<close>




subsection \<open>The feature vector\<close>

lemma build_feature_vector_names:
  "map fst (build_feature_vector us di si bl rd) = FEATURE_NAMES"
  by (simp add: build_feature_vector_def FEATURE_NAMES_def)

lemma distinct_FEATURE_NAMES: "distinct FEATURE_NAMES"
  by (simp add: FEATURE_NAMES_def)

lemma extract_feature_array_ordered:
  assumes "map fst fv = FEATURE_NAMES"
  shows "extract_feature_array fv = map snd fv"
proof -
  have d: "distinct (map fst fv)"
    using assms distinct_FEATURE_NAMES by simp
  have "fv_get fv (fst p) = snd p" if "p \<in> set fv" for p
  proof -
    have "(fst p, snd p) \<in> set fv" using that by simp
    then have "map_of fv (fst p) = Some (snd p)"
      using d by (rule map_of_is_SomeI [rotated])
    then show ?thesis by (simp add: fv_get_def)
  qed
  then have "map (\<lambda>p. fv_get fv (fst p)) fv = map snd fv"
    by (simp cong: map_cong)
  then have "map (\<lambda>f. fv_get fv f) (map fst fv) = map snd fv"
    by (simp add: comp_def)
  then show ?thesis by (simp add: extract_feature_array_def assms)
qed

text \<open>
  Claim C5. The feature vector that \<^verbatim>\<open>scan_url\<close> assembles holds exactly the 15 named
  features, in the order \<^verbatim>\<open>url_length\<close>, \<^verbatim>\<open>num_subdomains\<close>, \<^verbatim>\<open>has_https\<close>,
  \<^verbatim>\<open>domain_age_days\<close>, \<^verbatim>\<open>redirect_count\<close>, \<^verbatim>\<open>is_blacklisted\<close>, \<^verbatim>\<open>has_ip_in_url\<close>,
  \<^verbatim>\<open>suspicious_patterns\<close>, \<^verbatim>\<open>has_valid_ssl\<close>, \<^verbatim>\<open>special_char_count\<close>,
  \<^verbatim>\<open>num_hyphens\<close>, \<^verbatim>\<open>path_depth\<close>, \<^verbatim>\<open>pct_encoded_count\<close>, \<^verbatim>\<open>has_at_symbol\<close>,
  \<^verbatim>\<open>is_url_shortener\<close>. This is the order of \<^verbatim>\<open>FEATURE_NAMES\<close>, in which the Anomaly
  Scorer reads its input: the row it builds is the vector's values in the vector's order.
\<close>

theorem feature_vector_order:
  assumes "scan_url e raw = (Inr res, io)"
  shows "map fst (sr_feature_vector res)
           = [''url_length'', ''num_subdomains'', ''has_https'', ''domain_age_days'',
              ''redirect_count'', ''is_blacklisted'', ''has_ip_in_url'',
              ''suspicious_patterns'', ''has_valid_ssl'', ''special_char_count'',
              ''num_hyphens'', ''path_depth'', ''pct_encoded_count'', ''has_at_symbol'',
              ''is_url_shortener'']
         \<and> map fst (sr_feature_vector res) = FEATURE_NAMES
         \<and> length (sr_feature_vector res) = 15
         \<and> distinct (map fst (sr_feature_vector res))
         \<and> extract_feature_array (sr_feature_vector res) = map snd (sr_feature_vector res)"
proof -
  obtain parsed where
    res: "res = aggregate (normalize_url raw) (registered_domain e (normalize_url raw))
                 (url_structure_of e (normalize_url raw) parsed)
                 (fst (analyze_domain e (normalize_url raw)))
                 (fst (ssl_check_of e parsed))
                 (check_blacklist e (normalize_url raw))
                 (fst (analyze_redirects e (normalize_url raw)))"
    using assms by (rule scan_url_result)
  have names: "map fst (sr_feature_vector res) = FEATURE_NAMES"
    unfolding res aggregate_simps by (rule build_feature_vector_names)
  have len: "length (sr_feature_vector res) = 15"
    using arg_cong [OF names, of length] by (simp add: FEATURE_NAMES_def)
  show ?thesis
    using names len distinct_FEATURE_NAMES extract_feature_array_ordered [OF names]
    by (simp add: FEATURE_NAMES_def)
qed

theorem feature_vector_order_witness:
  "\<exists>res io. scan_url demo_env ''example.com/path'' = (Inr res, io)
     \<and> map fst (sr_feature_vector res) = FEATURE_NAMES
     \<and> extract_feature_array (sr_feature_vector res)
          = [24, 0, 1, 100, 0, 0, 0, 0, 1, 0, 0, 0, 0, 0, 0]"
proof -
  have "case scan_url demo_env ''example.com/path'' of
          (Inr res, io) \<Rightarrow>
            map snd (sr_feature_vector res) = [24, 0, 1, 100, 0, 0, 0, 0, 1, 0, 0, 0, 0, 0, 0]
        | _ \<Rightarrow> False"
    by code_simp
  then obtain res io where
    h: "scan_url demo_env ''example.com/path'' = (Inr res, io)"
    and v: "map snd (sr_feature_vector res) = [24, 0, 1, 100, 0, 0, 0, 0, 1, 0, 0, 0, 0, 0, 0]"
    by (auto split: prod.splits sum.splits)
  show ?thesis
    using feature_vector_order [OF h] h v by auto
qed

subsection \<open>The Blacklist Checker\<close>

text \<open>
  Claim C10. Two URLs from which the same registrable domain is extracted get the same
  result from \<^verbatim>\<open>check_blacklist\<close>: flag, sources, score and rules. Nothing else of
  the URL (scheme, subdomains, path, query, fragment) enters the result. The score is
  exactly 40 when the flag is set and exactly 0 when it is not.
\<close>

theorem check_blacklist_domain_only:
  assumes "registered_domain e u1 = registered_domain e u2"
  shows "check_blacklist e u1 = check_blacklist e u2
         \<and> bl_rule_score (check_blacklist e u1)
              = (if bl_is_blacklisted (check_blacklist e u1) then 40 else 0)"
  using assms by (simp add: check_blacklist_def Let_def)

theorem check_blacklist_domain_only_witness:
  "registered_domain demo_env ''https://www.evil-site.tk/a/b?c=1#d''
     = registered_domain demo_env ''http://evil-site.tk''
   \<and> check_blacklist demo_env ''https://www.evil-site.tk/a/b?c=1#d''
     = check_blacklist demo_env ''http://evil-site.tk''
   \<and> bl_is_blacklisted (check_blacklist demo_env ''https://www.evil-site.tk/a/b?c=1#d'')
   \<and> bl_rule_score (check_blacklist demo_env ''https://www.evil-site.tk/a/b?c=1#d'') = 40"
proof -
  have r: "registered_domain demo_env ''https://www.evil-site.tk/a/b?c=1#d''
     = registered_domain demo_env ''http://evil-site.tk''"
    by code_simp
  have b: "bl_is_blacklisted (check_blacklist demo_env ''https://www.evil-site.tk/a/b?c=1#d'')"
    by code_simp
  note t = check_blacklist_domain_only [OF r]
  have e: "check_blacklist demo_env ''https://www.evil-site.tk/a/b?c=1#d''
     = check_blacklist demo_env ''http://evil-site.tk''"
    using t by (rule conjunct1)
  have s: "bl_rule_score (check_blacklist demo_env ''https://www.evil-site.tk/a/b?c=1#d'') = 40"
    using conjunct2 [OF t] b by simp
  show ?thesis
    using r e b s by (intro conjI)
qed

subsection \<open>The Domain-Age Resolver\<close>

text \<open>
  Claim C7. For every registrable domain exactly one of four outcomes applies and fixes
  the score of \<^verbatim>\<open>analyze_domain\<close>: the domain is on the allow-list, which gives age
  5000 and score 0 without a lookup; the lookup mechanism is not available, score 8; the
  lookup fails for the domain, score 5; the lookup succeeds, and the score is 10 when the
  age is unknown (\<open>-1\<close>), else 20 below 30 days, 12 below 180, 5 below 365 and 0 from
  365 days on.
\<close>

theorem domain_age_outcomes:
  "(let reg = registered_domain e url;
        di = fst (analyze_domain e url);
        io = snd (analyze_domain e url);
        allow_listed = (reg \<in> set BENIGN_DOMAINS);
        unavailable = (reg \<notin> set BENIGN_DOMAINS \<and> \<not> WHOIS_AVAILABLE e);
        failure = (reg \<notin> set BENIGN_DOMAINS \<and> WHOIS_AVAILABLE e \<and> whois e reg = WhoisRaised);
        success = (reg \<notin> set BENIGN_DOMAINS \<and> WHOIS_AVAILABLE e
                   \<and> (\<exists>w. whois e reg = WhoisOk w))
    in (of_bool allow_listed + of_bool unavailable + of_bool failure + of_bool success
          = (1 :: nat))
       \<and> (allow_listed \<longrightarrow> di_domain_age_days di = 5000 \<and> di_rule_score di = 0 \<and> io = [])
       \<and> (unavailable \<longrightarrow> di_rule_score di = 8 \<and> io = [])
       \<and> (failure \<longrightarrow> di_rule_score di = 5 \<and> io = [WhoisQuery reg])
       \<and> (\<forall>w. reg \<notin> set BENIGN_DOMAINS \<and> WHOIS_AVAILABLE e \<and> whois e reg = WhoisOk w \<longrightarrow>
             di_domain_age_days di = (case w_creation_age w of None \<Rightarrow> - 1 | Some a \<Rightarrow> a)
             \<and> di_rule_score di =
                 (if di_domain_age_days di = - 1 then 10
                  else if di_domain_age_days di < 30 then 20
                  else if di_domain_age_days di < 180 then 12
                  else if di_domain_age_days di < 365 then 5
                  else 0)
             \<and> io = [WhoisQuery reg]))"
proof -
  have one: "of_bool (reg \<in> set BENIGN_DOMAINS)
        + of_bool (reg \<notin> set BENIGN_DOMAINS \<and> \<not> WHOIS_AVAILABLE e)
        + of_bool (reg \<notin> set BENIGN_DOMAINS \<and> WHOIS_AVAILABLE e \<and> whois e reg = WhoisRaised)
        + of_bool (reg \<notin> set BENIGN_DOMAINS \<and> WHOIS_AVAILABLE e
                   \<and> (\<exists>w. whois e reg = WhoisOk w)) = (1 :: nat)" for reg
    by (cases "whois e reg") simp_all
  have ok: "di_domain_age_days (fst (analyze_domain e url))
               = (case w_creation_age w of None \<Rightarrow> - 1 | Some a \<Rightarrow> a)
            \<and> di_rule_score (fst (analyze_domain e url)) =
                 (if di_domain_age_days (fst (analyze_domain e url)) = - 1 then 10
                  else if di_domain_age_days (fst (analyze_domain e url)) < 30 then 20
                  else if di_domain_age_days (fst (analyze_domain e url)) < 180 then 12
                  else if di_domain_age_days (fst (analyze_domain e url)) < 365 then 5
                  else 0)
            \<and> snd (analyze_domain e url) = [WhoisQuery (registered_domain e url)]"
    if "registered_domain e url \<notin> set BENIGN_DOMAINS" and "WHOIS_AVAILABLE e"
      and "whois e (registered_domain e url) = WhoisOk w" for w
    using that
    by (cases "w_creation_age w"; cases "w_expiry_str w")
      (simp_all add: analyze_domain_def Let_def domain_age_rules_sum)
  have allow: "di_domain_age_days (fst (analyze_domain e url)) = 5000
        \<and> di_rule_score (fst (analyze_domain e url)) = 0 \<and> snd (analyze_domain e url) = []"
    if "registered_domain e url \<in> set BENIGN_DOMAINS"
    using that by (simp add: analyze_domain_def Let_def)
  have unav: "di_rule_score (fst (analyze_domain e url)) = 8 \<and> snd (analyze_domain e url) = []"
    if "registered_domain e url \<notin> set BENIGN_DOMAINS \<and> \<not> WHOIS_AVAILABLE e"
    using that by (simp add: analyze_domain_def Let_def)
  have fail: "di_rule_score (fst (analyze_domain e url)) = 5
        \<and> snd (analyze_domain e url) = [WhoisQuery (registered_domain e url)]"
    if "registered_domain e url \<notin> set BENIGN_DOMAINS \<and> WHOIS_AVAILABLE e
        \<and> whois e (registered_domain e url) = WhoisRaised"
    using that by (simp add: analyze_domain_def Let_def)
  show ?thesis
    unfolding Let_def
    using one [of "registered_domain e url"] ok allow unav fail
    by blast
qed

theorem domain_age_outcomes_witness:
  "di_domain_age_days (fst (analyze_domain demo_env ''https://www.google.com/search'')) = 5000
   \<and> di_rule_score (fst (analyze_domain demo_env ''https://www.google.com/search'')) = 0
   \<and> snd (analyze_domain demo_env ''https://www.google.com/search'') = []
   \<and> di_rule_score
        (fst (analyze_domain (demo_env\<lparr> WHOIS_AVAILABLE := False \<rparr>) ''https://example.com'')) = 8
   \<and> di_rule_score (fst (analyze_domain demo_env ''https://unknown-site.org'')) = 5
   \<and> di_domain_age_days (fst (analyze_domain demo_env ''https://example.com'')) = 100
   \<and> di_rule_score (fst (analyze_domain demo_env ''https://example.com'')) = 12"
proof -
  have r1: "registered_domain demo_env ''https://www.google.com/search'' = ''google.com''"
    by code_simp
  have b1: "''google.com'' \<in> set BENIGN_DOMAINS"
    by (simp add: BENIGN_DOMAINS_def)
  have r2: "registered_domain (demo_env\<lparr> WHOIS_AVAILABLE := False \<rparr>) ''https://example.com''
      = ''example.com''"
    by code_simp
  have b2: "''example.com'' \<notin> set BENIGN_DOMAINS"
    by (simp add: BENIGN_DOMAINS_def)
  have a2: "\<not> WHOIS_AVAILABLE (demo_env\<lparr> WHOIS_AVAILABLE := False \<rparr>)"
    by simp
  have r3: "registered_domain demo_env ''https://unknown-site.org'' = ''unknown-site.org''"
    by code_simp
  have b3: "''unknown-site.org'' \<notin> set BENIGN_DOMAINS"
    by (simp add: BENIGN_DOMAINS_def)
  have a: "WHOIS_AVAILABLE demo_env"
    by (simp add: demo_env_def)
  have w3: "whois demo_env ''unknown-site.org'' = WhoisRaised"
    by (simp add: demo_env_def demo_whois_def)
  have r4: "registered_domain demo_env ''https://example.com'' = ''example.com''"
    by code_simp
  have w4: "whois demo_env ''example.com''
      = WhoisOk \<lparr> w_creation_age = Some 100,
                     w_creation_str = ''2026-07-27 00:00:00'',
                     w_expiry_str = Some ''2027-07-27 00:00:00'',
                     w_registrar = Some ''Example Registrar'',
                     w_country = Some ''US'' \<rparr>"
    by (simp add: demo_env_def demo_whois_def)
  have c1: "di_domain_age_days (fst (analyze_domain demo_env ''https://www.google.com/search'')) = 5000
   \<and> di_rule_score (fst (analyze_domain demo_env ''https://www.google.com/search'')) = 0
   \<and> snd (analyze_domain demo_env ''https://www.google.com/search'') = []"
    using domain_age_outcomes [of demo_env "''https://www.google.com/search''"] b1
    unfolding Let_def r1 by simp
  have c2: "di_rule_score
        (fst (analyze_domain (demo_env\<lparr> WHOIS_AVAILABLE := False \<rparr>) ''https://example.com'')) = 8"
    using domain_age_outcomes [of "demo_env\<lparr> WHOIS_AVAILABLE := False \<rparr>" "''https://example.com''"]
      b2 a2
    unfolding Let_def r2 by simp
  have c3: "di_rule_score (fst (analyze_domain demo_env ''https://unknown-site.org'')) = 5"
    using domain_age_outcomes [of demo_env "''https://unknown-site.org''"] b3 a w3
    unfolding Let_def r3 by simp
  have c4: "di_domain_age_days (fst (analyze_domain demo_env ''https://example.com'')) = 100
   \<and> di_rule_score (fst (analyze_domain demo_env ''https://example.com'')) = 12"
    using domain_age_outcomes [of demo_env "''https://example.com''"] b2 a w4
    unfolding Let_def r4 by simp
  show ?thesis
    using c1 c2 c3 c4 by (intro conjI) simp_all
qed

subsection \<open>The TLS Inspector\<close>

text \<open>
  Claim C8, as stated, says that \<^verbatim>\<open>analyze_ssl\<close> attempts the TLS handshake for every
  URL whose scheme is \<^verbatim>\<open>https\<close>. The code first tests the hostname: for an
  \<^verbatim>\<open>https\<close> URL without one, such as \<^verbatim>\<open>https://:443\<close>, it returns score 5 and
  opens no connection.
\<close>

theorem tls_inspector_counterexample:
  "urlparse demo_env ''https://:443''
     = Inr \<lparr> scheme = ''https'', netloc = '':443'', hostname = None, path = [], query = [],
             fragment = [] \<rparr>
   \<and> analyze_ssl demo_env ''https://:443''
     = Inr (\<lparr> ssl_has_https = True, ssl_has_valid_ssl = False, ssl_issuer = None,
              ssl_subject = None, ssl_expiry = None, ssl_days_left = None,
              ssl_version = None, ssl_is_self_signed = False, ssl_rule_score = 5,
              ssl_rules_triggered = [NoHostname], ssl_ssl_info = None \<rparr>,
            [])"
  by code_simp

text \<open>
  Claim C8, amended. For every URL whose scheme is not \<^verbatim>\<open>https\<close>,
  \<^verbatim>\<open>analyze_ssl\<close> returns score exactly 20 and attempts no handshake. For every
  \<^verbatim>\<open>https\<close> URL with an empty hostname it returns score 5 and attempts no handshake.
  For every \<^verbatim>\<open>https\<close> URL with a hostname it attempts the handshake, once, and
  exactly one outcome applies: validation failure scores 18, connection failure 8, an
  unexpected error 5, and on success the score is the self-signed penalty (15) plus the
  expiry penalty (18 when expired, 10 below 15 days, 5 below 30 days), capped at 20.
\<close>

theorem tls_inspector_outcomes:
  assumes "urlparse e url = Inr parsed"
  shows "\<exists>si io. analyze_ssl e url = Inr (si, io)
     \<and> (py_lower (scheme parsed) \<noteq> ''https''
          \<longrightarrow> ssl_rule_score si = 20 \<and> io = [] \<and> \<not> ssl_has_https si)
     \<and> (py_lower (scheme parsed) = ''https'' \<and> (hostname parsed = None \<or> hostname parsed = Some [])
          \<longrightarrow> ssl_rule_score si = 5 \<and> io = [] \<and> ssl_has_https si)
     \<and> (\<forall>h. py_lower (scheme parsed) = ''https'' \<and> hostname parsed = Some h \<and> h \<noteq> []
          \<longrightarrow> io = [TlsHandshake h] \<and> ssl_has_https si
              \<and> (\<forall>msg. tls_connect e h = TlsSSLError msg \<longrightarrow> ssl_rule_score si = 18)
              \<and> (tls_connect e h = TlsConnectError \<longrightarrow> ssl_rule_score si = 8)
              \<and> (\<forall>msg. tls_connect e h = TlsOtherError msg \<longrightarrow> ssl_rule_score si = 5)
              \<and> (\<forall>cert. tls_connect e h = TlsConnected cert \<longrightarrow>
                    ssl_has_valid_ssl si
                    \<and> ssl_rule_score si =
                        min ((if dict_eq (cert_issuer cert) (cert_subject cert) then 15 else 0)
                             + (let days_left = (if cert_notAfter cert \<noteq> []
                                                 then cert_days_left cert else 999)
                                in if days_left < 0 then 18
                                   else if days_left < 15 then 10
                                   else if days_left < 30 then 5 else 0)) 20))"
proof -
  let ?si = "fst (ssl_check_of e parsed)" and ?io = "snd (ssl_check_of e parsed)"
  have r: "analyze_ssl e url = Inr (?si, ?io)"
    by (simp add: analyze_ssl_def assms)
  have a: "ssl_rule_score ?si = 20 \<and> ?io = [] \<and> \<not> ssl_has_https ?si"
    if "py_lower (scheme parsed) \<noteq> ''https''"
    using that by (simp add: ssl_check_of_def Let_def)
  have b: "ssl_rule_score ?si = 5 \<and> ?io = [] \<and> ssl_has_https ?si"
    if "py_lower (scheme parsed) = ''https'' \<and> (hostname parsed = None \<or> hostname parsed = Some [])"
    using that by (auto simp: ssl_check_of_def Let_def)
  have c: "?io = [TlsHandshake h] \<and> ssl_has_https ?si
        \<and> (\<forall>msg. tls_connect e h = TlsSSLError msg \<longrightarrow> ssl_rule_score ?si = 18)
        \<and> (tls_connect e h = TlsConnectError \<longrightarrow> ssl_rule_score ?si = 8)
        \<and> (\<forall>msg. tls_connect e h = TlsOtherError msg \<longrightarrow> ssl_rule_score ?si = 5)
        \<and> (\<forall>cert. tls_connect e h = TlsConnected cert \<longrightarrow>
              ssl_has_valid_ssl ?si
              \<and> ssl_rule_score ?si =
                  min ((if dict_eq (cert_issuer cert) (cert_subject cert) then 15 else 0)
                       + (let days_left = (if cert_notAfter cert \<noteq> []
                                           then cert_days_left cert else 999)
                          in if days_left < 0 then 18
                             else if days_left < 15 then 10
                             else if days_left < 30 then 5 else 0)) 20)"
    if "py_lower (scheme parsed) = ''https'' \<and> hostname parsed = Some h \<and> h \<noteq> []" for h
    using that
    by (cases "tls_connect e h")
      (simp_all add: ssl_check_of_def Let_def ssl_cert_rules_sum)
  show ?thesis
    using r a b c by blast
qed

theorem tls_inspector_outcomes_witness:
  "(\<exists>si. analyze_ssl demo_env ''http://example.com'' = Inr (si, [])
        \<and> ssl_rule_score si = 20)
   \<and> (\<exists>si. analyze_ssl demo_env ''https://:443'' = Inr (si, [])
        \<and> ssl_rule_score si = 5)
   \<and> (\<exists>si. analyze_ssl demo_env ''https://example.com/path''
               = Inr (si, [TlsHandshake ''example.com''])
        \<and> ssl_rule_score si = 0)
   \<and> (\<exists>si. analyze_ssl
               (demo_env\<lparr> tls_connect := (\<lambda>h. TlsConnected
                   \<lparr> cert_notAfter = ''Jan  1 00:00:00 2020 GMT'',
                     cert_days_left = - 100,
                     cert_issuer = [(''commonName'', h)],
                     cert_subject = [(''commonName'', h)],
                     cert_version = ''TLSv1.2'' \<rparr>) \<rparr>)
               ''https://example.com/path''
               = Inr (si, [TlsHandshake ''example.com''])
        \<and> ssl_rule_score si = 20)"
proof -
  let ?e2 = "demo_env\<lparr> tls_connect := (\<lambda>h. TlsConnected
                   \<lparr> cert_notAfter = ''Jan  1 00:00:00 2020 GMT'',
                     cert_days_left = - 100,
                     cert_issuer = [(''commonName'', h)],
                     cert_subject = [(''commonName'', h)],
                     cert_version = ''TLSv1.2'' \<rparr>) \<rparr>"
  have l1: "py_lower ''http'' \<noteq> ''https''" by code_simp
  have l2: "py_lower ''https'' = ''https''" by code_simp
  have p1: "urlparse demo_env ''http://example.com''
      = Inr \<lparr> scheme = ''http'', netloc = ''example.com'', hostname = Some ''example.com'',
              path = [], query = [], fragment = [] \<rparr>"
    by code_simp
  have p2: "urlparse demo_env ''https://:443''
      = Inr \<lparr> scheme = ''https'', netloc = '':443'', hostname = None, path = [], query = [],
              fragment = [] \<rparr>"
    by code_simp
  have p3: "urlparse demo_env ''https://example.com/path''
      = Inr \<lparr> scheme = ''https'', netloc = ''example.com'', hostname = Some ''example.com'',
              path = ''/path'', query = [], fragment = [] \<rparr>"
    by code_simp
  have p4: "urlparse ?e2 ''https://example.com/path''
      = Inr \<lparr> scheme = ''https'', netloc = ''example.com'', hostname = Some ''example.com'',
              path = ''/path'', query = [], fragment = [] \<rparr>"
    using p3 by (simp add: demo_env_def)
  have t3: "tls_connect demo_env ''example.com'' = TlsConnected (demo_cert ''example.com'')"
    by (simp add: demo_env_def)
  have d3: "\<not> dict_eq (cert_issuer (demo_cert ''example.com''))
                  (cert_subject (demo_cert ''example.com''))"
    by code_simp
  have d4: "dict_eq [(''commonName'', ''example.com'')] [(''commonName'', ''example.com'')]"
    by code_simp
  have c1: "\<exists>si. analyze_ssl demo_env ''http://example.com'' = Inr (si, [])
        \<and> ssl_rule_score si = 20"
    using tls_inspector_outcomes [OF p1] l1 by auto
  have c2: "\<exists>si. analyze_ssl demo_env ''https://:443'' = Inr (si, [])
        \<and> ssl_rule_score si = 5"
    using tls_inspector_outcomes [OF p2] l2 by auto
  have c3: "\<exists>si. analyze_ssl demo_env ''https://example.com/path''
               = Inr (si, [TlsHandshake ''example.com''])
        \<and> ssl_rule_score si = 0"
    using tls_inspector_outcomes [OF p3] l2 t3 d3 by (auto simp: demo_cert_def)
  have c4: "\<exists>si. analyze_ssl ?e2 ''https://example.com/path''
               = Inr (si, [TlsHandshake ''example.com''])
        \<and> ssl_rule_score si = 20"
    using tls_inspector_outcomes [OF p4] l2 d4 by auto
  show ?thesis
    using c1 c2 c3 c4 by (intro conjI)
qed

subsection \<open>The Redirect Tracer\<close>

lemma has_downgrade_iff:
  "has_downgrade chain \<longleftrightarrow>
     (\<exists>i. Suc i < length chain \<and> hop_scheme (chain ! i) = ''https''
          \<and> hop_scheme (chain ! Suc i) = ''http'')"
proof (induction chain rule: has_downgrade.induct)
  case (1 a b rest)
  show ?case
  proof (cases "hop_scheme a = ''https'' \<and> hop_scheme b = ''http''")
    case True
    then have "Suc 0 < length (a # b # rest) \<and> hop_scheme ((a # b # rest) ! 0) = ''https''
        \<and> hop_scheme ((a # b # rest) ! Suc 0) = ''http''"
      by simp
    then have "\<exists>i. Suc i < length (a # b # rest) \<and> hop_scheme ((a # b # rest) ! i) = ''https''
        \<and> hop_scheme ((a # b # rest) ! Suc i) = ''http''"
      by blast
    then show ?thesis using True by simp
  next
    case False
    have "(\<exists>i. Suc i < length (a # b # rest) \<and> hop_scheme ((a # b # rest) ! i) = ''https''
            \<and> hop_scheme ((a # b # rest) ! Suc i) = ''http'')
          \<longleftrightarrow> (\<exists>j. Suc j < length (b # rest) \<and> hop_scheme ((b # rest) ! j) = ''https''
            \<and> hop_scheme ((b # rest) ! Suc j) = ''http'')" (is "?L \<longleftrightarrow> ?R")
    proof
      assume ?L
      then obtain i where i: "Suc i < length (a # b # rest)"
        "hop_scheme ((a # b # rest) ! i) = ''https''"
        "hop_scheme ((a # b # rest) ! Suc i) = ''http''"
        by blast
      have "i \<noteq> 0" using i False by (cases i) auto
      then obtain j where j: "i = Suc j" by (cases i) auto
      show ?R using i unfolding j by auto
    next
      assume ?R
      then obtain j where "Suc j < length (b # rest)"
        "hop_scheme ((b # rest) ! j) = ''https''"
        "hop_scheme ((b # rest) ! Suc j) = ''http''"
        by blast
      then have "Suc (Suc j) < length (a # b # rest)
          \<and> hop_scheme ((a # b # rest) ! Suc j) = ''https''
          \<and> hop_scheme ((a # b # rest) ! Suc (Suc j)) = ''http''"
        by simp
      then show ?L by blast
    qed
    then have eq: "?L \<longleftrightarrow> ?R" .
    have "has_downgrade (a # b # rest) \<longleftrightarrow> has_downgrade (b # rest)"
      using False by auto
    also have "\<dots> \<longleftrightarrow> ?R"
      using False by (rule "1.IH")
    finally show ?thesis
      using eq by blast
  qed
qed simp_all

lemma length_domains_visited:
  "length (domains_visited e chain) = card (hop_domain e ` set chain)"
  by (simp add: domains_visited_def length_remdups_card_conv)

lemma analyze_redirects_traced:
  assumes "http_get e url = HttpResponse history final"
    and "build_chain e (history @ [final]) = Inr chain"
  shows "rd_rule_score (fst (analyze_redirects e url)) =
           min ((if 5 \<le> int (length history) then 15
                 else if 3 \<le> int (length history) then 8 else 0)
                + (if 2 < length (domains_visited e chain) then 10 else 0)
                + (if has_downgrade chain then 12 else 0)) 20
         \<and> rd_redirect_count (fst (analyze_redirects e url)) = int (length history)
         \<and> rd_redirect_chain (fst (analyze_redirects e url)) = chain"
  using assms by (simp add: analyze_redirects_def Let_def redirect_rules_sum)

lemma build_chain_length: "build_chain e rs = Inr chain \<Longrightarrow> length chain = length rs"
proof (induction rs arbitrary: chain)
  case Nil
  then show ?case by simp
next
  case (Cons r rs)
  obtain u st where r: "r = (u, st)" by (cases r)
  show ?case
    using Cons.prems Cons.IH unfolding r
    by (auto split: sum.splits)
qed

text \<open>
  Claim C9. For every chain that was traced without error, the score of
  \<^verbatim>\<open>analyze_redirects\<close> is the sum of the deltas that apply, capped at 20: 15 for five
  or more redirects, else 8 for three or more; 10 when the chain visits more than two
  distinct registrable domains; 12 when some hop with scheme \<^verbatim>\<open>https\<close> is followed
  directly by a hop with scheme \<^verbatim>\<open>http\<close>. So a chain of 6 hops (six redirects, or
  six responses with the final one) over 3 distinct domains with such a downgrade scores
  \<open>min (15 + 10 + 12) 20 = 20\<close>.
\<close>

theorem redirect_tracer_score:
  assumes "http_get e url = HttpResponse history final"
    and "build_chain e (history @ [final]) = Inr chain"
  shows "rd_rule_score (fst (analyze_redirects e url)) =
           min ((if 5 \<le> length history then 15 else if 3 \<le> length history then 8 else 0)
                + (if 2 < card (hop_domain e ` set chain) then 10 else 0)
                + (if (\<exists>i. Suc i < length chain \<and> hop_scheme (chain ! i) = ''https''
                          \<and> hop_scheme (chain ! Suc i) = ''http'') then 12 else 0)) 20
         \<and> ((length history = 6 \<or> length chain = 6) \<and> card (hop_domain e ` set chain) = 3
              \<and> (\<exists>i. Suc i < length chain \<and> hop_scheme (chain ! i) = ''https''
                       \<and> hop_scheme (chain ! Suc i) = ''http'')
              \<longrightarrow> rd_rule_score (fst (analyze_redirects e url)) = min (15 + 10 + 12) 20
                  \<and> rd_rule_score (fst (analyze_redirects e url)) = 20)"
proof -
  have s: "rd_rule_score (fst (analyze_redirects e url)) =
           min ((if 5 \<le> length history then 15 else if 3 \<le> length history then 8 else 0)
                + (if 2 < card (hop_domain e ` set chain) then 10 else 0)
                + (if (\<exists>i. Suc i < length chain \<and> hop_scheme (chain ! i) = ''https''
                          \<and> hop_scheme (chain ! Suc i) = ''http'') then 12 else 0)) 20"
    using analyze_redirects_traced [OF assms]
    unfolding length_domains_visited has_downgrade_iff
    by simp
  have "length chain = length history + 1"
    using build_chain_length [OF assms(2)] by simp
  then show ?thesis
    unfolding s by auto
qed

theorem redirect_tracer_score_witness:
  "http_get demo_redirect_env ''https://a.com/''
     = HttpResponse demo_history (''http://c.com/end'', 200)
   \<and> length demo_history = 6
   \<and> (\<exists>chain. build_chain demo_redirect_env (demo_history @ [(''http://c.com/end'', 200)])
                  = Inr chain
          \<and> map hop_scheme chain
              = [''https'', ''https'', ''http'', ''http'', ''http'', ''http'', ''http'']
          \<and> card (hop_domain demo_redirect_env ` set chain) = 3)
   \<and> rd_rule_score (fst (analyze_redirects demo_redirect_env ''https://a.com/'')) = 20"
proof -
  have h1: "http_get demo_redirect_env ''https://a.com/''
     = HttpResponse demo_history (''http://c.com/end'', 200)"
    by (simp add: demo_redirect_env_def)
  have "case build_chain demo_redirect_env (demo_history @ [(''http://c.com/end'', 200)]) of
          Inl _ \<Rightarrow> False
        | Inr chain \<Rightarrow>
            map hop_scheme chain
              = [''https'', ''https'', ''http'', ''http'', ''http'', ''http'', ''http'']
            \<and> length (remdups (map (hop_domain demo_redirect_env) chain)) = 3"
    by code_simp
  then obtain chain where
    h2: "build_chain demo_redirect_env (demo_history @ [(''http://c.com/end'', 200)]) = Inr chain"
    and sch: "map hop_scheme chain
              = [''https'', ''https'', ''http'', ''http'', ''http'', ''http'', ''http'']"
    and dom: "length (remdups (map (hop_domain demo_redirect_env) chain)) = 3"
    by (auto split: sum.splits)
  have card: "card (hop_domain demo_redirect_env ` set chain) = 3"
    using dom by (simp add: length_remdups_card_conv)
  have len: "length chain = 7"
    using arg_cong [OF sch, of length] by simp
  have n1: "hop_scheme (chain ! 1) = ''https''" and n2: "hop_scheme (chain ! 2) = ''http''"
    using arg_cong [OF sch, of "\<lambda>xs. xs ! 1"] arg_cong [OF sch, of "\<lambda>xs. xs ! 2"] len
    by simp_all
  have down: "\<exists>i. Suc i < length chain \<and> hop_scheme (chain ! i) = ''https''
                   \<and> hop_scheme (chain ! Suc i) = ''http''"
    using len n1 n2 by (intro exI [of _ 1]) (simp add: numeral_2_eq_2)
  have six: "length demo_history = 6"
    by (simp add: demo_history_def)
  have score: "rd_rule_score (fst (analyze_redirects demo_redirect_env ''https://a.com/'')) = 20"
    using redirect_tracer_score [OF h1 h2] six card down by simp
  have "build_chain demo_redirect_env (demo_history @ [(''http://c.com/end'', 200)]) = Inr chain
          \<and> map hop_scheme chain
              = [''https'', ''https'', ''http'', ''http'', ''http'', ''http'', ''http'']
          \<and> card (hop_domain demo_redirect_env ` set chain) = 3"
    using h2 sch card by (intro conjI)
  then have ex: "\<exists>chain. build_chain demo_redirect_env (demo_history @ [(''http://c.com/end'', 200)])
                  = Inr chain
          \<and> map hop_scheme chain
              = [''https'', ''https'', ''http'', ''http'', ''http'', ''http'', ''http'']
          \<and> card (hop_domain demo_redirect_env ` set chain) = 3"
    by (rule exI)
  show ?thesis
    using h1 six ex score by (intro conjI)
qed

subsection \<open>Normalization of the input\<close>

text \<open>
  Claim C4. The specification has \<^verbatim>\<open>scan_url\<close> prepend \<^verbatim>\<open>https://\<close> exactly when
  the input has no scheme, and leave an input with a scheme as it is. The code tests
  for the two literal prefixes \<^verbatim>\<open>http://\<close> and \<^verbatim>\<open>https://\<close>, in lower case, instead.
  The inputs \<^verbatim>\<open>HTTP://example.com\<close> and \<^verbatim>\<open>ftp://example.com\<close> have a scheme and
  are changed all the same: the scan is that of \<^verbatim>\<open>https://HTTP://example.com\<close>
  (\<^verbatim>\<open>https://ftp://example.com\<close>), whose host is \<^verbatim>\<open>http\<close> (\<^verbatim>\<open>ftp\<close>), not
  \<^verbatim>\<open>example.com\<close>.
\<close>

theorem normalize_url_scheme_bug:
  "spec_has_scheme (py_strip ''HTTP://example.com'')
   \<and> normalize_url ''HTTP://example.com'' = ''https://HTTP://example.com''
   \<and> normalize_url ''HTTP://example.com'' \<noteq> py_strip ''HTTP://example.com''
   \<and> urlparse demo_env ''https://HTTP://example.com''
     = Inr \<lparr> scheme = ''https'', netloc = ''HTTP:'', hostname = Some ''http'',
             path = ''//example.com'', query = [], fragment = [] \<rparr>
   \<and> (case scan_url demo_env ''HTTP://example.com'' of
         (Inr res, io) \<Rightarrow>
           sr_url res = ''https://HTTP://example.com'' \<and> sr_domain res = ''http''
       | (Inl err, io) \<Rightarrow> False)
   \<and> spec_has_scheme (py_strip ''ftp://example.com'')
   \<and> normalize_url ''ftp://example.com'' = ''https://ftp://example.com''
   \<and> normalize_url ''ftp://example.com'' \<noteq> py_strip ''ftp://example.com''
   \<and> urlparse demo_env ''https://ftp://example.com''
     = Inr \<lparr> scheme = ''https'', netloc = ''ftp:'', hostname = Some ''ftp'',
             path = ''//example.com'', query = [], fragment = [] \<rparr>
   \<and> (case scan_url demo_env ''ftp://example.com'' of
         (Inr res, io) \<Rightarrow>
           sr_url res = ''https://ftp://example.com'' \<and> sr_domain res = ''ftp''
       | (Inl err, io) \<Rightarrow> False)"
  by code_simp

end
